theory Spec2Isabelle
  imports Complex_Main "HOL-Library.Multiset"
begin

section \<open>Strings\<close>

text \<open>
  JavaScript strings are modelled as \<^typ>\<open>string\<close> (lists of 8-bit characters), which covers
  ASCII and Latin-1 text. \<open>trim\<close> is \<^verbatim>\<open>String.prototype.trim\<close> over that range:
  the white space characters are TAB, LF, VT, FF, CR, SPACE and NBSP.
\<close>

definition isWhite :: "char \<Rightarrow> bool" where
  "isWhite c = (c \<in> set [CHR 0x09, CHR 0x0A, CHR 0x0B, CHR 0x0C, CHR 0x0D, CHR 0x20, CHR 0xA0])"

definition trim :: "string \<Rightarrow> string" where
  "trim s = rev (dropWhile isWhite (rev (dropWhile isWhite s)))"

text \<open>
  \<^verbatim>\<open>input.replace(/<[^>]*>/g, "")\<close>: every \<open><\<close> that is followed, somewhere later, by a
  \<open>>\<close> starts a match that runs to the first such \<open>>\<close>; matches do not overlap. The flag
  of \<open>stripTags\<close> says that the scan is inside a match.
\<close>

fun stripTags :: "bool \<Rightarrow> string \<Rightarrow> string" where
  "stripTags inTag [] = []"
| "stripTags False (c # cs) =
     (if c = CHR ''<'' \<and> CHR ''>'' \<in> set cs then stripTags True cs else c # stripTags False cs)"
| "stripTags True (c # cs) =
     (if c = CHR ''>'' then stripTags False cs else stripTags True cs)"

text \<open>\<^verbatim>\<open>function sanitizeString(input) { return input.replace(/<[^>]*>/g, "").trim(); }\<close>\<close>

definition sanitizeString :: "string \<Rightarrow> string" where
  "sanitizeString input = trim (stripTags False input)"

section \<open>Data model\<close>

text \<open>
  The entities of \<^verbatim>\<open>@shared/dao\<close> as the routes use them. Time stamps are the ISO strings
  of \<^verbatim>\<open>new Date().toISOString()\<close>; the clock is a parameter of every handler that reads it.
  A task's \<open>progress\<close> is \<^verbatim>\<open>number | null\<close>; the model holds integer values (the
  data model's "integer 0..100 or null"). A task's \<open>id\<close> is a number of integral value.
  An optional field is an \<open>option\<close>.
\<close>

datatype UserRole = Admin | User

datatype TeamRole = chef_equipe | membre_equipe

record AuthUser =
  user_id :: string
  user_name :: string
  user_email :: string
  user_role :: UserRole

record TeamMember =
  member_id :: string
  member_name :: string
  member_role :: TeamRole
  member_email :: "string option"

record DaoTask =
  task_id :: int
  task_name :: string
  progress :: "int option"
  task_comment :: "string option"
  isApplicable :: bool
  assignedTo :: "string option"
  lastUpdatedBy :: "string option"
  lastUpdatedAt :: "string option"

record Dao =
  dao_id :: string
  numeroListe :: string
  objetDossier :: string
  reference :: string
  autoriteContractante :: string
  dateDepot :: string
  equipe :: "TeamMember list"
  tasks :: "DaoTask list"
  createdAt :: string
  updatedAt :: string

section \<open>DaoStorage (backend-express/data/daoStorage.ts)\<close>

text \<open>
  The storage is the array \<open>storage\<close>; \<open>idIndex\<close> is the map that \<open>rebuildIndexes\<close> builds
  from it (\<^verbatim>\<open>this.storage.forEach((dao, index) => this.idIndex.set(dao.id, index))\<close>, so a
  later entry with the same id wins). The class rebuilds the index after every change of the
  array that can change an id, hence the index is a function of the array.
\<close>

type_synonym DaoStorage = "Dao list"

definition idIndex :: "DaoStorage \<Rightarrow> string \<Rightarrow> nat option" where
  "idIndex st = fold (\<lambda>(d, k) m. m(dao_id d \<mapsto> k)) (zip st [0..<length st]) Map.empty"

definition findIndexById :: "DaoStorage \<Rightarrow> string \<Rightarrow> nat option" where
  \<comment> \<open>\<open>None\<close> is the source's \<open>-1\<close>\<close>
  "findIndexById st i = idIndex st i"

definition findById :: "DaoStorage \<Rightarrow> string \<Rightarrow> Dao option" where
  "findById st i = (case idIndex st i of None \<Rightarrow> None | Some k \<Rightarrow> Some (st ! k))"

definition updateAtIndex :: "DaoStorage \<Rightarrow> nat \<Rightarrow> Dao \<Rightarrow> DaoStorage" where
  "updateAtIndex st k d = (if k < length st then st[k := d] else st)"

section \<open>Requests, responses, middleware\<close>

text \<open>
  A response is its status and its JSON body: an error body \<open>{error, code}\<close> (the \<open>details\<close>
  of a validation error are left out), a Dao, the next number, or the body of a task
  deletion \<open>{message, deletedTask: {id, name}, dao}\<close>.
\<close>

datatype response =
    Error nat string string
  | DaoJson nat Dao
  | NextNumberJson string
  | TaskDeletedJson int string Dao

text \<open>
  Modelled from the spec: the express middleware (\<^verbatim>\<open>backend-express/middleware/auth\<close>) is not
  among the sources; \<open>authenticate\<close>, \<open>requireAdmin\<close> and \<open>requireUser\<close> follow the
  access-control matrix of the spec and the middleware of the same names in
  \<^verbatim>\<open>backend-mongodb/src/middleware/auth.ts\<close>: \<open>authenticate\<close> answers 401 unless the bearer
  token yields an active user (the request's \<open>req_user\<close> is that outcome), and
  \<open>authorize roles\<close> answers 403 unless the user's role is one of \<open>roles\<close>. \<open>auditLog\<close>
  only logs.
\<close>

definition authorize :: "UserRole list \<Rightarrow> AuthUser option \<Rightarrow> response option" where
  "authorize roles u =
     (case u of
        None \<Rightarrow> Some (Error 401 ''Authentication required'' [])
      | Some usr \<Rightarrow>
          if user_role usr \<notin> set roles
          then Some (Error 403 ''Insufficient permissions'' [])
          else None)"

definition requireAdmin :: "AuthUser option \<Rightarrow> response option" where
  "requireAdmin = authorize [Admin]"

definition requireUser :: "AuthUser option \<Rightarrow> response option" where
  "requireUser = authorize [Admin, User]"

text \<open>
  The values of a JSON request body's fields, for the bodies the routes inspect by type.
\<close>

datatype jsvalue = JUndefined | JNull | JBool bool | JNumber int | JString string

record TaskUpdateBody =
  body_progress :: jsvalue
  body_comment :: jsvalue
  body_isApplicable :: jsvalue
  body_assignedTo :: jsvalue

text \<open>
  What \<open>taskUpdateSchema.parse\<close> returns: every field optional.
  \<^verbatim>\<open>
  const taskUpdateSchema = z.object({
    progress: z.number().min(0).max(100).optional(),
    comment: z.string().max(1000).optional(),
    isApplicable: z.boolean().optional(),
    assignedTo: z.string().max(50).optional(),
  });\<close>
  \<open>None\<close> is the thrown \<open>ZodError\<close>.
\<close>

record TaskUpdate =
  upd_progress :: "int option"
  upd_comment :: "string option"
  upd_isApplicable :: "bool option"
  upd_assignedTo :: "string option"

definition zNumberOpt :: "int \<Rightarrow> int \<Rightarrow> jsvalue \<Rightarrow> int option option" where
  "zNumberOpt lo hi v =
     (case v of
        JUndefined \<Rightarrow> Some None
      | JNumber n \<Rightarrow> if lo \<le> n \<and> n \<le> hi then Some (Some n) else None
      | _ \<Rightarrow> None)"

definition zStringOpt :: "nat \<Rightarrow> jsvalue \<Rightarrow> string option option" where
  "zStringOpt mx v =
     (case v of
        JUndefined \<Rightarrow> Some None
      | JString s \<Rightarrow> if length s \<le> mx then Some (Some s) else None
      | _ \<Rightarrow> None)"

definition zBooleanOpt :: "jsvalue \<Rightarrow> bool option option" where
  "zBooleanOpt v =
     (case v of
        JUndefined \<Rightarrow> Some None
      | JBool b \<Rightarrow> Some (Some b)
      | _ \<Rightarrow> None)"

definition taskUpdateSchema :: "TaskUpdateBody \<Rightarrow> TaskUpdate option" where
  "taskUpdateSchema b =
     (case zNumberOpt 0 100 (body_progress b) of None \<Rightarrow> None | Some p \<Rightarrow>
      case zStringOpt 1000 (body_comment b) of None \<Rightarrow> None | Some c \<Rightarrow>
      case zBooleanOpt (body_isApplicable b) of None \<Rightarrow> None | Some a \<Rightarrow>
      case zStringOpt 50 (body_assignedTo b) of None \<Rightarrow> None | Some s \<Rightarrow>
        Some \<lparr>upd_progress = p, upd_comment = c, upd_isApplicable = a, upd_assignedTo = s\<rparr>)"

section \<open>Task routes of the express backend (backend-express/routes/dao-simple.ts)\<close>

text \<open>
  A route is its middleware chain followed by its handler; it returns the response and the
  storage after the request. After \<open>findIndexById\<close> found the index,
  \<^verbatim>\<open>daoStorage.findById(id)!\<close> is the Dao object at that index of the storage. \<open>dao.tasks.find\<close> returns the first task with the id, and the
  handler mutates that task in place, inside the Dao object that the storage holds:
  \<open>mapFirst\<close> is that mutation.
\<close>

fun mapFirst :: "('a \<Rightarrow> bool) \<Rightarrow> ('a \<Rightarrow> 'a) \<Rightarrow> 'a list \<Rightarrow> 'a list" where
  "mapFirst P f [] = []"
| "mapFirst P f (x # xs) = (if P x then f x # xs else x # mapFirst P f xs)"

text \<open>
  The request of a task route: the outcome of \<open>authenticate\<close>, the \<open>:id\<close> parameter, and
  \<^verbatim>\<open>parseInt(taskId)\<close> (\<open>None\<close> is \<open>NaN\<close>).
\<close>

record TaskRequest =
  req_user :: "AuthUser option"
  req_id :: string
  req_taskId :: "int option"

text \<open>
  Lines 474 to 489: the fields of the validated patch that are present overwrite the
  task's; the task is then stamped with the actor and the time.
\<close>

definition applyTaskUpdate :: "TaskUpdate \<Rightarrow> string \<Rightarrow> string \<Rightarrow> DaoTask \<Rightarrow> DaoTask" where
  "applyTaskUpdate v actor now t =
     t\<lparr>progress := (case upd_progress v of Some p \<Rightarrow> Some p | None \<Rightarrow> progress t),
       task_comment := (case upd_comment v of Some c \<Rightarrow> Some (sanitizeString c) | None \<Rightarrow> task_comment t),
       isApplicable := (case upd_isApplicable v of Some a \<Rightarrow> a | None \<Rightarrow> isApplicable t),
       assignedTo := (case upd_assignedTo v of Some s \<Rightarrow> Some (sanitizeString s) | None \<Rightarrow> assignedTo t),
       lastUpdatedBy := Some actor,
       lastUpdatedAt := Some now\<rparr>"

text \<open>PUT /api/dao/:id/tasks/:taskId, the handler (lines 433 to 516).\<close>

definition putTask_handler ::
  "string \<Rightarrow> string \<Rightarrow> DaoStorage \<Rightarrow> AuthUser \<Rightarrow> TaskRequest \<Rightarrow> TaskUpdateBody \<Rightarrow> response \<times> DaoStorage" where
  "putTask_handler now1 now2 st usr req body =
     (if req_id req = [] \<or> length (req_id req) > 100
      then (Error 400 ''Invalid DAO ID'' ''INVALID_DAO_ID'', st)
      else case req_taskId req of
        None \<Rightarrow> (Error 400 ''Invalid task ID'' ''INVALID_TASK_ID'', st)
      | Some n \<Rightarrow>
        if n < 1 then (Error 400 ''Invalid task ID'' ''INVALID_TASK_ID'', st)
        else case taskUpdateSchema body of
          None \<Rightarrow> (Error 400 ''Validation error'' ''VALIDATION_ERROR'', st)
        | Some v \<Rightarrow>
          (case findIndexById st (req_id req) of
             None \<Rightarrow> (Error 404 ''DAO not found'' ''DAO_NOT_FOUND'', st)
           | Some k \<Rightarrow>
             let dao = the (findById st (req_id req)) in
             (case find (\<lambda>t. task_id t = n) (tasks dao) of
                None \<Rightarrow> (Error 404 ''Task not found'' ''TASK_NOT_FOUND'', st)
              | Some task \<Rightarrow>
                let dao' = dao\<lparr>tasks := mapFirst (\<lambda>t. task_id t = n)
                                            (applyTaskUpdate v (user_id usr) now1) (tasks dao),
                               updatedAt := now2\<rparr>
                in (DaoJson 200 dao', updateAtIndex st k dao'))))"

text \<open>The route: \<^verbatim>\<open>authenticate, requireUser, auditLog("UPDATE_TASK"), handler\<close>.\<close>

definition putTask ::
  "string \<Rightarrow> string \<Rightarrow> DaoStorage \<Rightarrow> TaskRequest \<Rightarrow> TaskUpdateBody \<Rightarrow> response \<times> DaoStorage" where
  "putTask now1 now2 st req body =
     (case requireUser (req_user req) of
        Some r \<Rightarrow> (r, st)
      | None \<Rightarrow> putTask_handler now1 now2 st (the (req_user req)) req body)"

section \<open>Adding, renaming and deleting a task (admin routes of dao-simple.ts)\<close>

text \<open>
  \<^verbatim>\<open>
  const createTaskSchema = z.object({
    name: z.string().min(1).max(200).trim(),
    isApplicable: z.boolean(),
    progress: z.number().min(0).max(100).nullable(),
    comment: z.string().max(1000).optional(),
    assignedTo: z.string().max(50).optional(),
  });\<close>
  The body record holds the bodies whose fields have these JSON types; the checks of the
  lengths and of the range are \<open>createTaskSchema\<close>, which returns the parsed body (the name
  trimmed, after its length was checked) or \<open>None\<close> for the \<open>ZodError\<close>.
\<close>

record CreateTaskBody =
  new_name :: string
  new_isApplicable :: bool
  new_progress :: "int option"
  new_comment :: "string option"
  new_assignedTo :: "string option"

definition optAll :: "('a \<Rightarrow> bool) \<Rightarrow> 'a option \<Rightarrow> bool" where
  "optAll P x = (case x of None \<Rightarrow> True | Some v \<Rightarrow> P v)"

definition createTaskSchema :: "CreateTaskBody \<Rightarrow> CreateTaskBody option" where
  "createTaskSchema b =
     (if 1 \<le> length (new_name b) \<and> length (new_name b) \<le> 200
         \<and> optAll (\<lambda>p. 0 \<le> p \<and> p \<le> 100) (new_progress b)
         \<and> optAll (\<lambda>c. length c \<le> 1000) (new_comment b)
         \<and> optAll (\<lambda>a. length a \<le> 50) (new_assignedTo b)
      then Some (b\<lparr>new_name := trim (new_name b)\<rparr>)
      else None)"

text \<open>
  \<^verbatim>\<open>Math.max(...xs)\<close> of a non-empty array of numbers. Every caller tests the length of
  the array first, so the equation for the empty array is never used.
\<close>

fun mathMax :: "'a::{linorder,zero} list \<Rightarrow> 'a" where
  "mathMax [] = 0"
| "mathMax (x # xs) = fold max xs x"

text \<open>
  Lines 576 to 578:
  \<^verbatim>\<open>
  const existingIds = dao.tasks.map((t) => t.id);
  const newId = existingIds.length > 0 ? Math.max(...existingIds) + 1 : 1;\<close>
\<close>

text \<open>
  A task id is a JavaScript number of integral value (\<^verbatim>\<open>z.number().int()\<close>), that is an
  integer that is a double, and \<^verbatim>\<open>x + 1\<close> is the addition of doubles. It is exact while
  the sum is at most \<open>2 ^ 53\<close> in absolute value. From \<open>2 ^ 53\<close> up to \<open>2 ^ 54\<close> the doubles
  are the even integers: \<open>x + 1\<close> lies half-way between \<open>x\<close> and \<open>x + 2\<close> and is rounded
  to the one of the two whose significand, \<open>x div 2\<close> or \<open>x div 2 + 1\<close>, is even. Beyond,
  the doubles are at least 4 apart and \<open>x + 1\<close> is rounded back to \<open>x\<close>.
\<close>

definition jsAddOne :: "int \<Rightarrow> int" where
  "jsAddOne x =
     (if - (2 ^ 53) \<le> x \<and> x < 2 ^ 53 then x + 1
      else if \<bar>x\<bar> < 2 ^ 54 then (if even (x div 2) then x else x + 2)
      else x)"


definition newTaskId :: "DaoTask list \<Rightarrow> int" where
  "newTaskId ts =
     (let existingIds = map task_id ts
      in if length existingIds > 0 then jsAddOne (mathMax existingIds) else 1)"

text \<open>Lines 581 to 592: the new task.\<close>

definition newTask :: "CreateTaskBody \<Rightarrow> string \<Rightarrow> string \<Rightarrow> int \<Rightarrow> DaoTask" where
  "newTask v actor now newId =
     \<lparr>task_id = newId,
      task_name = sanitizeString (new_name v),
      progress = (if new_isApplicable v then new_progress v else None),
      task_comment = (case new_comment v of
                        None \<Rightarrow> None
                      | Some c \<Rightarrow> if c = [] then None else Some (sanitizeString c)),
      isApplicable = new_isApplicable v,
      assignedTo = new_assignedTo v,
      lastUpdatedBy = Some actor,
      lastUpdatedAt = Some now\<rparr>"

text \<open>POST /api/dao/:daoId/tasks, the handler (lines 552 to 622).\<close>

definition postTask_handler ::
  "string \<Rightarrow> string \<Rightarrow> DaoStorage \<Rightarrow> AuthUser \<Rightarrow> TaskRequest \<Rightarrow> CreateTaskBody \<Rightarrow> response \<times> DaoStorage" where
  "postTask_handler now1 now2 st usr req body =
     (if req_id req = [] \<or> length (req_id req) > 100
      then (Error 400 ''Invalid DAO ID'' ''INVALID_DAO_ID'', st)
      else case createTaskSchema body of
        None \<Rightarrow> (Error 400 ''Validation error'' ''VALIDATION_ERROR'', st)
      | Some v \<Rightarrow>
        (case findIndexById st (req_id req) of
           None \<Rightarrow> (Error 404 ''DAO not found'' ''DAO_NOT_FOUND'', st)
         | Some k \<Rightarrow>
           let dao = the (findById st (req_id req));
               t = newTask v (user_id usr) now1 (newTaskId (tasks dao));
               dao' = dao\<lparr>tasks := tasks dao @ [t], updatedAt := now2\<rparr>
           in (DaoJson 201 dao', updateAtIndex st k dao')))"

text \<open>The route: \<^verbatim>\<open>authenticate, requireAdmin, auditLog("ADD_TASK"), handler\<close>.\<close>

definition postTask ::
  "string \<Rightarrow> string \<Rightarrow> DaoStorage \<Rightarrow> TaskRequest \<Rightarrow> CreateTaskBody \<Rightarrow> response \<times> DaoStorage" where
  "postTask now1 now2 st req body =
     (case requireAdmin (req_user req) of
        Some r \<Rightarrow> (r, st)
      | None \<Rightarrow> postTask_handler now1 now2 st (the (req_user req)) req body)"

text \<open>
  PUT /api/dao/:daoId/tasks/:taskId/name, the handler (lines 631 to 703). The body is
  \<^verbatim>\<open>{ name: z.string().min(1).max(200).trim() }\<close>.
\<close>

definition updateTaskNameSchema :: "string \<Rightarrow> string option" where
  "updateTaskNameSchema nm =
     (if 1 \<le> length nm \<and> length nm \<le> 200 then Some (trim nm) else None)"

definition putTaskName_handler ::
  "string \<Rightarrow> string \<Rightarrow> DaoStorage \<Rightarrow> AuthUser \<Rightarrow> TaskRequest \<Rightarrow> string \<Rightarrow> response \<times> DaoStorage" where
  "putTaskName_handler now1 now2 st usr req body =
     (if req_id req = [] \<or> length (req_id req) > 100
      then (Error 400 ''Invalid DAO ID'' ''INVALID_DAO_ID'', st)
      else case req_taskId req of
        None \<Rightarrow> (Error 400 ''Invalid task ID'' ''INVALID_TASK_ID'', st)
      | Some n \<Rightarrow>
        if n < 1 then (Error 400 ''Invalid task ID'' ''INVALID_TASK_ID'', st)
        else case updateTaskNameSchema body of
          None \<Rightarrow> (Error 400 ''Validation error'' ''VALIDATION_ERROR'', st)
        | Some nm \<Rightarrow>
          (case findIndexById st (req_id req) of
             None \<Rightarrow> (Error 404 ''DAO not found'' ''DAO_NOT_FOUND'', st)
           | Some k \<Rightarrow>
             let dao = the (findById st (req_id req)) in
             (case find (\<lambda>t. task_id t = n) (tasks dao) of
                None \<Rightarrow> (Error 404 ''Task not found'' ''TASK_NOT_FOUND'', st)
              | Some task \<Rightarrow>
                let dao' = dao\<lparr>tasks := mapFirst (\<lambda>t. task_id t = n)
                                   (\<lambda>t. t\<lparr>task_name := sanitizeString nm,
                                           lastUpdatedBy := Some (user_id usr),
                                           lastUpdatedAt := Some now1\<rparr>) (tasks dao),
                               updatedAt := now2\<rparr>
                in (DaoJson 200 dao', updateAtIndex st k dao'))))"

definition putTaskName ::
  "string \<Rightarrow> string \<Rightarrow> DaoStorage \<Rightarrow> TaskRequest \<Rightarrow> string \<Rightarrow> response \<times> DaoStorage" where
  "putTaskName now1 now2 st req body =
     (case requireAdmin (req_user req) of
        Some r \<Rightarrow> (r, st)
      | None \<Rightarrow> putTaskName_handler now1 now2 st (the (req_user req)) req body)"

text \<open>
  DELETE /api/dao/:daoId/tasks/:taskId, the handler (lines 712 to 773).
  \<^verbatim>\<open>dao.tasks.findIndex\<close> gives the first task with the id and \<^verbatim>\<open>splice(taskIndex, 1)\<close>
  removes it: \<open>removeFirst\<close>.
\<close>

fun removeFirst :: "('a \<Rightarrow> bool) \<Rightarrow> 'a list \<Rightarrow> 'a list" where
  "removeFirst P [] = []"
| "removeFirst P (x # xs) = (if P x then xs else x # removeFirst P xs)"

definition deleteTask_handler ::
  "string \<Rightarrow> DaoStorage \<Rightarrow> AuthUser \<Rightarrow> TaskRequest \<Rightarrow> response \<times> DaoStorage" where
  "deleteTask_handler now st usr req =
     (if req_id req = [] \<or> length (req_id req) > 100
      then (Error 400 ''Invalid DAO ID'' ''INVALID_DAO_ID'', st)
      else case req_taskId req of
        None \<Rightarrow> (Error 400 ''Invalid task ID'' ''INVALID_TASK_ID'', st)
      | Some n \<Rightarrow>
        if n < 1 then (Error 400 ''Invalid task ID'' ''INVALID_TASK_ID'', st)
        else
          (case findIndexById st (req_id req) of
             None \<Rightarrow> (Error 404 ''DAO not found'' ''DAO_NOT_FOUND'', st)
           | Some k \<Rightarrow>
             let dao = the (findById st (req_id req)) in
             (case find (\<lambda>t. task_id t = n) (tasks dao) of
                None \<Rightarrow> (Error 404 ''Task not found'' ''TASK_NOT_FOUND'', st)
              | Some deletedTask \<Rightarrow>
                let dao' = dao\<lparr>tasks := removeFirst (\<lambda>t. task_id t = n) (tasks dao),
                               updatedAt := now\<rparr>
                in (TaskDeletedJson (task_id deletedTask) (task_name deletedTask) dao',
                    updateAtIndex st k dao'))))"

definition deleteTask :: "string \<Rightarrow> DaoStorage \<Rightarrow> TaskRequest \<Rightarrow> response \<times> DaoStorage" where
  "deleteTask now st req =
     (case requireAdmin (req_user req) of
        Some r \<Rightarrow> (r, st)
      | None \<Rightarrow> deleteTask_handler now st (the (req_user req)) req)"

section \<open>The task update of the MongoDB backend (backend-mongodb/src/routes/dao.ts)\<close>

text \<open>
  Lines 227 to 259 of PUT /api/dao/:id/tasks/:taskId, on the document that
  \<^verbatim>\<open>DaoModel.findById\<close> loaded (\<open>None\<close> when there is none): the body is read unvalidated,
  a field is applied when its \<open>typeof\<close> is the expected one, and the result is the document
  handed to \<^verbatim>\<open>dao.save()\<close>. An error response leaves the document as it was loaded.
  The task is a mongoose subdocument, and the schema of the model (second part of
  backend-mongodb/src/middleware/auth.ts, lines 205 to 222) sets the options of its paths:
  \<^verbatim>\<open>comment: { type: String, trim: true }\<close>, so an assigned comment is stored trimmed;
  \<^verbatim>\<open>assignedTo: { type: String }\<close>, \<^verbatim>\<open>isApplicable\<close> and \<^verbatim>\<open>progress\<close> have no setter.
\<close>

definition mongoApplyTaskUpdate :: "TaskUpdateBody \<Rightarrow> string \<Rightarrow> string \<Rightarrow> DaoTask \<Rightarrow> DaoTask" where
  "mongoApplyTaskUpdate b actor now t =
     t\<lparr>progress := (case body_progress b of JNumber p \<Rightarrow> Some (max 0 (min 100 p)) | _ \<Rightarrow> progress t),
       task_comment := (case body_comment b of JString c \<Rightarrow> Some (trim c) | _ \<Rightarrow> task_comment t),
       isApplicable := (case body_isApplicable b of JBool a \<Rightarrow> a | _ \<Rightarrow> isApplicable t),
       assignedTo := (case body_assignedTo b of JString s \<Rightarrow> Some s | _ \<Rightarrow> assignedTo t),
       lastUpdatedBy := Some actor,
       lastUpdatedAt := Some now\<rparr>"

definition mongoPutTask_handler ::
  "string \<Rightarrow> Dao option \<Rightarrow> AuthUser \<Rightarrow> int option \<Rightarrow> TaskUpdateBody \<Rightarrow> response + Dao" where
  "mongoPutTask_handler now doc usr taskId body =
     (case taskId of
        None \<Rightarrow> Inl (Error 400 ''Invalid task ID'' [])
      | Some n \<Rightarrow>
        (case doc of
           None \<Rightarrow> Inl (Error 404 ''DAO not found'' [])
         | Some dao \<Rightarrow>
           (case find (\<lambda>t. task_id t = n) (tasks dao) of
              None \<Rightarrow> Inl (Error 404 ''Task not found'' [])
            | Some task \<Rightarrow>
              Inr (dao\<lparr>tasks := mapFirst (\<lambda>t. task_id t = n)
                                  (mongoApplyTaskUpdate body (user_id usr) now) (tasks dao)\<rparr>))))"

definition mongoPutTask ::
  "string \<Rightarrow> Dao option \<Rightarrow> AuthUser option \<Rightarrow> int option \<Rightarrow> TaskUpdateBody \<Rightarrow> response + Dao" where
  "mongoPutTask now doc u taskId body =
     (case requireUser u of
        Some r \<Rightarrow> Inl r
      | None \<Rightarrow> mongoPutTask_handler now doc (the u) taskId body)"

section \<open>The general Dao update (PUT /api/dao/:id of dao-simple.ts)\<close>

text \<open>
  The body of the request, for the bodies whose fields have the JSON types of the schema;
  an absent field is \<open>None\<close>. \<open>updateDaoSchema = createDaoSchema.partial()\<close> checks the fields
  that are present:
  \<^verbatim>\<open>
  const teamMemberSchema = z.object({
    id: z.string().min(1).max(50),
    name: z.string().min(1).max(100).trim(),
    role: z.enum(["chef_equipe", "membre_equipe"]),
    email: z.string().email().optional(),
  });
  const taskSchema = z.object({
    id: z.number().int().min(1),
    name: z.string().min(1).max(200).trim(),
    progress: z.number().min(0).max(100).nullable(),
    comment: z.string().max(1000).optional(),
    isApplicable: z.boolean(),
    assignedTo: z.string().max(50).optional(),
    lastUpdatedBy: z.string().max(50).optional(),
    lastUpdatedAt: z.string().optional(),
  });
  const createDaoSchema = z.object({
    numeroListe: z.string().min(1).max(50).trim(),
    objetDossier: z.string().min(1).max(500).trim(),
    reference: z.string().min(1).max(200).trim(),
    autoriteContractante: z.string().min(1).max(200).trim(),
    dateDepot: z.string().refine((date) => !isNaN(Date.parse(date)), "Invalid date format"),
    equipe: z.array(teamMemberSchema).min(1).max(20),
    tasks: z.array(taskSchema).max(50).optional(),
  });\<close>
  A string is checked for its length as it was sent and then trimmed. Whether a string is
  a date that \<^verbatim>\<open>Date.parse\<close> reads and whether it is an e-mail address for zod are the
  parameters \<open>dateParses\<close> and \<open>isEmail\<close>.
\<close>

record UpdateDaoBody =
  b_numeroListe :: "string option"
  b_objetDossier :: "string option"
  b_reference :: "string option"
  b_autoriteContractante :: "string option"
  b_dateDepot :: "string option"
  b_equipe :: "TeamMember list option"
  b_tasks :: "DaoTask list option"

definition zString :: "nat \<Rightarrow> nat \<Rightarrow> string \<Rightarrow> bool" where
  "zString mn mx s = (mn \<le> length s \<and> length s \<le> mx)"

definition teamMemberSchema :: "(string \<Rightarrow> bool) \<Rightarrow> TeamMember \<Rightarrow> TeamMember option" where
  "teamMemberSchema isEmail m =
     (if zString 1 50 (member_id m) \<and> zString 1 100 (member_name m)
         \<and> optAll isEmail (member_email m)
      then Some (m\<lparr>member_name := trim (member_name m)\<rparr>)
      else None)"

definition taskSchema :: "DaoTask \<Rightarrow> DaoTask option" where
  "taskSchema t =
     (if 1 \<le> task_id t \<and> zString 1 200 (task_name t)
         \<and> optAll (\<lambda>p. 0 \<le> p \<and> p \<le> 100) (progress t)
         \<and> optAll (zString 0 1000) (task_comment t)
         \<and> optAll (zString 0 50) (assignedTo t)
         \<and> optAll (zString 0 50) (lastUpdatedBy t)
      then Some (t\<lparr>task_name := trim (task_name t)\<rparr>)
      else None)"

text \<open>\<open>z.array(schema)\<close>: every element parses, or the array does not.\<close>

fun zArray :: "('a \<Rightarrow> 'a option) \<Rightarrow> 'a list \<Rightarrow> 'a list option" where
  "zArray f [] = Some []"
| "zArray f (x # xs) =
     (case f x of
        None \<Rightarrow> None
      | Some y \<Rightarrow> (case zArray f xs of None \<Rightarrow> None | Some ys \<Rightarrow> Some (y # ys)))"

text \<open>An optional field: absent, or present and parsed by \<open>f\<close>; \<open>None\<close> is the \<open>ZodError\<close>.\<close>

definition zOptional :: "('a \<Rightarrow> 'a option) \<Rightarrow> 'a option \<Rightarrow> 'a option option" where
  "zOptional f x = (case x of None \<Rightarrow> Some None | Some v \<Rightarrow> map_option Some (f v))"

definition zTrimmed :: "nat \<Rightarrow> nat \<Rightarrow> string \<Rightarrow> string option" where
  "zTrimmed mn mx s = (if zString mn mx s then Some (trim s) else None)"

definition updateDaoSchema ::
  "(string \<Rightarrow> bool) \<Rightarrow> (string \<Rightarrow> bool) \<Rightarrow> UpdateDaoBody \<Rightarrow> UpdateDaoBody option" where
  "updateDaoSchema dateParses isEmail b =
     (case zOptional (zTrimmed 1 50) (b_numeroListe b) of None \<Rightarrow> None | Some nl \<Rightarrow>
      case zOptional (zTrimmed 1 500) (b_objetDossier b) of None \<Rightarrow> None | Some ob \<Rightarrow>
      case zOptional (zTrimmed 1 200) (b_reference b) of None \<Rightarrow> None | Some rf \<Rightarrow>
      case zOptional (zTrimmed 1 200) (b_autoriteContractante b) of None \<Rightarrow> None | Some au \<Rightarrow>
      case zOptional (\<lambda>d. if dateParses d then Some d else None) (b_dateDepot b) of
        None \<Rightarrow> None | Some dd \<Rightarrow>
      case zOptional (\<lambda>ms. if 1 \<le> length ms \<and> length ms \<le> 20
                            then zArray (teamMemberSchema isEmail) ms else None) (b_equipe b) of
        None \<Rightarrow> None | Some eq \<Rightarrow>
      case zOptional (\<lambda>ts. if length ts \<le> 50 then zArray taskSchema ts else None) (b_tasks b) of
        None \<Rightarrow> None | Some ts \<Rightarrow>
        Some \<lparr>b_numeroListe = nl, b_objetDossier = ob, b_reference = rf,
              b_autoriteContractante = au, b_dateDepot = dd, b_equipe = eq, b_tasks = ts\<rparr>)"

text \<open>
  Lines 321 to 346: a string field is sanitized when it is truthy (not empty), the team
  when it is present.
\<close>

definition sanitizeTruthy :: "string \<Rightarrow> string" where
  "sanitizeTruthy s = (if s \<noteq> [] then sanitizeString s else s)"

definition sanitizedUpdates :: "UpdateDaoBody \<Rightarrow> UpdateDaoBody" where
  "sanitizedUpdates v =
     v\<lparr>b_numeroListe := map_option sanitizeTruthy (b_numeroListe v),
       b_objetDossier := map_option sanitizeTruthy (b_objetDossier v),
       b_reference := map_option sanitizeTruthy (b_reference v),
       b_autoriteContractante := map_option sanitizeTruthy (b_autoriteContractante v),
       b_equipe := map_option (map (\<lambda>m. m\<lparr>member_name := sanitizeString (member_name m)\<rparr>))
                     (b_equipe v)\<rparr>"

text \<open>
  Lines 348 to 353:
  \<^verbatim>\<open>{ ...currentDao, ...sanitizedUpdates, updatedAt: new Date().toISOString() }\<close>:
  a field of the updates that is present replaces the Dao's.
\<close>

definition orElse :: "'a option \<Rightarrow> 'a \<Rightarrow> 'a" where
  "orElse x d = (case x of None \<Rightarrow> d | Some v \<Rightarrow> v)"

definition spreadUpdates :: "Dao \<Rightarrow> UpdateDaoBody \<Rightarrow> string \<Rightarrow> Dao" where
  "spreadUpdates currentDao u now =
     currentDao\<lparr>numeroListe := orElse (b_numeroListe u) (numeroListe currentDao),
                objetDossier := orElse (b_objetDossier u) (objetDossier currentDao),
                reference := orElse (b_reference u) (reference currentDao),
                autoriteContractante := orElse (b_autoriteContractante u)
                                          (autoriteContractante currentDao),
                dateDepot := orElse (b_dateDepot u) (dateDepot currentDao),
                equipe := orElse (b_equipe u) (equipe currentDao),
                tasks := orElse (b_tasks u) (tasks currentDao),
                updatedAt := now\<rparr>"

text \<open>
  Lines 304 to 319: the check for another Dao with the same number, made when the validated
  \<open>numeroListe\<close> is truthy.
\<close>

definition duplicateNumber :: "DaoStorage \<Rightarrow> string \<Rightarrow> UpdateDaoBody \<Rightarrow> bool" where
  "duplicateNumber st i v =
     (case b_numeroListe v of
        None \<Rightarrow> False
      | Some nl \<Rightarrow> nl \<noteq> [] \<and> find (\<lambda>dao. dao_id dao \<noteq> i \<and> numeroListe dao = nl) st \<noteq> None)"

text \<open>PUT /api/dao/:id, the handler (lines 282 to 376).\<close>

definition putDao_handler ::
  "(string \<Rightarrow> bool) \<Rightarrow> (string \<Rightarrow> bool) \<Rightarrow> string \<Rightarrow> DaoStorage \<Rightarrow> string \<Rightarrow> UpdateDaoBody
     \<Rightarrow> response \<times> DaoStorage" where
  "putDao_handler dateParses isEmail now st i body =
     (if i = [] \<or> length i > 100
      then (Error 400 ''Invalid DAO ID'' ''INVALID_ID'', st)
      else case updateDaoSchema dateParses isEmail body of
        None \<Rightarrow> (Error 400 ''Validation error'' ''VALIDATION_ERROR'', st)
      | Some validatedData \<Rightarrow>
        (case findIndexById st i of
           None \<Rightarrow> (Error 404 ''DAO not found'' ''DAO_NOT_FOUND'', st)
         | Some index \<Rightarrow>
           if duplicateNumber st i validatedData
           then (Error 400 ''DAO number already exists'' ''DUPLICATE_NUMBER'', st)
           else
             let currentDao = st ! index;
                 updatedDao = spreadUpdates currentDao (sanitizedUpdates validatedData) now
             in (DaoJson 200 updatedDao, updateAtIndex st index updatedDao)))"

text \<open>The route: \<^verbatim>\<open>authenticate, requireUser, auditLog("UPDATE_DAO"), handler\<close>.\<close>

definition putDao ::
  "(string \<Rightarrow> bool) \<Rightarrow> (string \<Rightarrow> bool) \<Rightarrow> string \<Rightarrow> DaoStorage \<Rightarrow> AuthUser option \<Rightarrow> string
     \<Rightarrow> UpdateDaoBody \<Rightarrow> response \<times> DaoStorage" where
  "putDao dateParses isEmail now st u i body =
     (case requireUser u of
        Some r \<Rightarrow> (r, st)
      | None \<Rightarrow> putDao_handler dateParses isEmail now st i body)"

section \<open>Password reset tokens (AuthService, src/unnamed/part_006)\<close>

text \<open>
  \<^verbatim>\<open>String.prototype.toLowerCase\<close> on ASCII letters; other characters are kept.
\<close>

definition lowerChar :: "char \<Rightarrow> char" where
  "lowerChar c =
     (case map_of (zip ''ABCDEFGHIJKLMNOPQRSTUVWXYZ'' ''abcdefghijklmnopqrstuvwxyz'') c of
        None \<Rightarrow> c
      | Some l \<Rightarrow> l)"

definition toLowerCase :: "string \<Rightarrow> string" where
  "toLowerCase s = map lowerChar s"

text \<open>
  The module's state: the array \<open>users\<close> and the objects \<open>userPasswords\<close> (e-mail to
  password hash) and \<open>resetTokens\<close> (token to \<open>{email, expires}\<close>). An instant is the number
  of milliseconds of \<^verbatim>\<open>Date.now()\<close>. The set \<open>activeSessions\<close> is left out: no function
  modelled here reads or writes it. A token is a key that the object does not inherit
  (the tokens that \<open>generateResetToken\<close> draws are digits and upper-case letters).
\<close>

record User =
  usr_id :: string
  usr_name :: string
  usr_email :: string
  usr_role :: UserRole
  usr_createdAt :: string
  usr_lastLogin :: "string option"
  isActive :: bool

record ResetData =
  rd_email :: string
  expires :: int

record AuthState =
  users :: "User list"
  userPasswords :: "string \<rightharpoonup> string"
  resetTokens :: "string \<rightharpoonup> ResetData"

text \<open>
  \<open>generateResetToken\<close> (lines 345 to 361). \<open>token\<close> is the value of
  \<^verbatim>\<open>Math.random().toString(36).substring(2, 8).toUpperCase()\<close> and \<open>now\<close> the value of
  \<^verbatim>\<open>Date.now()\<close>. The result is the returned token (\<open>None\<close> is \<open>null\<close>) and the state.
\<close>

definition generateResetToken ::
  "string \<Rightarrow> int \<Rightarrow> AuthState \<Rightarrow> string \<Rightarrow> string option \<times> AuthState" where
  "generateResetToken token now s email =
     (case find (\<lambda>u. toLowerCase (usr_email u) = toLowerCase email \<and> isActive u) (users s) of
        None \<Rightarrow> (None, s)
      | Some usr \<Rightarrow>
          (Some token,
           s\<lparr>resetTokens := (resetTokens s)
                (token \<mapsto> \<lparr>rd_email = usr_email usr, expires = now + 15 * 60 * 1000\<rparr>)\<rparr>))"

text \<open>\<open>verifyResetToken\<close> (lines 364 to 383); \<open>now\<close> is the instant of \<^verbatim>\<open>new Date()\<close>.\<close>

definition verifyResetToken :: "int \<Rightarrow> AuthState \<Rightarrow> string \<Rightarrow> string \<Rightarrow> bool \<times> AuthState" where
  "verifyResetToken now s token email =
     (case resetTokens s token of
        None \<Rightarrow> (False, s)
      | Some resetData \<Rightarrow>
          if toLowerCase (rd_email resetData) \<noteq> toLowerCase email then (False, s)
          else if now > expires resetData
          then (False, s\<lparr>resetTokens := (resetTokens s)(token := None)\<rparr>)
          else (True, s))"

text \<open>
  \<open>resetPasswordWithToken\<close> (lines 386 to 412); \<open>hash\<close> is
  \<^verbatim>\<open>(p) => bcrypt.hash(p, 12)\<close> with the salt it draws.
\<close>

definition resetPasswordWithToken ::
  "(string \<Rightarrow> string) \<Rightarrow> int \<Rightarrow> AuthState \<Rightarrow> string \<Rightarrow> string \<Rightarrow> string \<Rightarrow> bool \<times> AuthState" where
  "resetPasswordWithToken hash now s token email newPassword =
     (case verifyResetToken now s token email of
        (False, s1) \<Rightarrow> (False, s1)
      | (True, s1) \<Rightarrow>
          (case find (\<lambda>u. toLowerCase (usr_email u) = toLowerCase email \<and> isActive u) (users s1) of
             None \<Rightarrow> (False, s1)
           | Some usr \<Rightarrow>
               (True,
                s1\<lparr>userPasswords := (userPasswords s1)(usr_email usr \<mapsto> hash newPassword),
                   resetTokens := (resetTokens s1)(token := None)\<rparr>)))"

section \<open>The next Dao number\<close>

text \<open>
  Decimal digits: \<open>\d\<close> of a JavaScript regular expression, \<^verbatim>\<open>parseInt(s, 10)\<close> on a string
  of digits, \<^verbatim>\<open>Number.prototype.toString\<close> on a natural number and
  \<^verbatim>\<open>padStart(3, "0")\<close>.
\<close>

definition isDigit :: "char \<Rightarrow> bool" where
  "isDigit c = (c \<in> set ''0123456789'')"

definition digitVal :: "char \<Rightarrow> nat" where
  "digitVal c =
     (case map_of (zip ''0123456789'' [0, 1, 2, 3, 4, 5, 6, 7, 8, 9]) c of
        None \<Rightarrow> 0
      | Some d \<Rightarrow> d)"

definition digitChar :: "nat \<Rightarrow> char" where
  "digitChar d = ''0123456789'' ! d"

definition parseInt :: "string \<Rightarrow> nat" where
  "parseInt ds = fold (\<lambda>c n. 10 * n + digitVal c) ds 0"

fun toString :: "nat \<Rightarrow> string" where
  "toString n = (if n < 10 then [digitChar n] else toString (n div 10) @ [digitChar (n mod 10)])"

declare toString.simps [simp del]

definition padStart3 :: "string \<Rightarrow> string" where
  "padStart3 s = replicate (3 - length s) CHR ''0'' @ s"

text \<open>
  \<^verbatim>\<open>numeroListe.match(/^DAO-(\d{4})-(\d{3})$/)\<close>: the two groups of a match, which is a
  string of exactly 12 characters.
\<close>

definition matchYearSeq :: "string \<Rightarrow> (string \<times> string) option" where
  "matchYearSeq s =
     (if length s = 12 \<and> take 4 s = ''DAO-'' \<and> list_all isDigit (take 4 (drop 4 s))
         \<and> s ! 8 = CHR ''-'' \<and> list_all isDigit (drop 9 s)
      then Some (take 4 (drop 4 s), drop 9 s)
      else None)"

text \<open>
  GET /api/dao/next-number of dao-simple.ts (lines 96 to 149), on the year of
  \<^verbatim>\<open>new Date().getFullYear()\<close> and the storage.
\<close>

definition nextNumber_handler :: "nat \<Rightarrow> DaoStorage \<Rightarrow> response" where
  "nextNumber_handler year st =
     (if year < 2020 \<or> year > 2100 then Error 400 ''Invalid year'' ''INVALID_YEAR''
      else
        let currentYearDaos =
              filter (\<lambda>dao. case matchYearSeq (numeroListe dao) of
                               None \<Rightarrow> False
                             | Some (y, q) \<Rightarrow> parseInt y = year) st
        in if length currentYearDaos = 0
           then NextNumberJson (''DAO-'' @ toString year @ ''-001'')
           else
             let numbers =
                   filter (\<lambda>num. num > 0)
                     (map (\<lambda>dao. case matchYearSeq (numeroListe dao) of
                                    None \<Rightarrow> 0
                                  | Some (y, q) \<Rightarrow> parseInt q) currentYearDaos);
                 nextNumber = (if length numbers > 0 then mathMax numbers + 1 else 1)
             in if nextNumber > 999
                then Error 400 ''Too many DAOs for this year'' ''YEAR_LIMIT_EXCEEDED''
                else NextNumberJson
                       (''DAO-'' @ toString year @ ''-'' @ padStart3 (toString nextNumber)))"

definition nextNumber :: "nat \<Rightarrow> DaoStorage \<Rightarrow> AuthUser option \<Rightarrow> response" where
  \<comment> \<open>the route: \<open>authenticate\<close>, then the handler\<close>
  "nextNumber year st u =
     (case u of
        None \<Rightarrow> Error 401 ''Authentication required'' []
      | Some usr \<Rightarrow> nextNumber_handler year st)"

text \<open>
  \<^verbatim>\<open>numeroListe.match(/DAO-\d{4}-(\d{3})/)\<close>, which is not anchored: the group of the first
  place of the string where the pattern matches.
\<close>

definition matchSeqAt :: "string \<Rightarrow> string option" where
  "matchSeqAt s =
     (if 12 \<le> length s \<and> take 4 s = ''DAO-'' \<and> list_all isDigit (take 4 (drop 4 s))
         \<and> s ! 8 = CHR ''-'' \<and> list_all isDigit (take 3 (drop 9 s))
      then Some (take 3 (drop 9 s))
      else None)"

fun searchSeq :: "string \<Rightarrow> string option" where
  "searchSeq [] = None"
| "searchSeq (c # cs) =
     (case matchSeqAt (c # cs) of
        Some q \<Rightarrow> Some q
      | None \<Rightarrow> searchSeq cs)"

text \<open>
  \<open>DaoService.generateNextDaoNumber\<close> (backend-express/services/daoService.ts, lines 35 to
  63) on the year and the \<open>numeroListe\<close> of the documents of the collection. The query
  \<^verbatim>\<open>{ numeroListe: { $regex: `^DAO-${year}-` } }\<close> selects the numbers with that prefix; the
  order of the result does not matter to the maximum. Every number of the array passes
  \<^verbatim>\<open>!isNaN(num)\<close>. The function has no error result of its own.
\<close>

definition generateNextDaoNumber :: "nat \<Rightarrow> string list \<Rightarrow> string" where
  "generateNextDaoNumber year numeros =
     (let prefix = ''DAO-'' @ toString year @ ''-'';
          existingDaos = filter (\<lambda>n. take (length prefix) n = prefix) numeros
      in if length existingDaos = 0 then ''DAO-'' @ toString year @ ''-001''
         else
           let numbers = map (\<lambda>n. case searchSeq n of None \<Rightarrow> 0 | Some q \<Rightarrow> parseInt q)
                           existingDaos;
               nextNumber = (if length numbers > 0 then mathMax numbers + 1 else 1)
           in ''DAO-'' @ toString year @ ''-'' @ padStart3 (toString nextNumber))"

text \<open>
  GET /api/dao/next-number of the MongoDB backend (dao.ts, lines 57 to 87): the query
  \<^verbatim>\<open>new RegExp(`^DAO-${year}-\\d{3}$`)\<close> selects the numbers that are the prefix followed by
  exactly three digits.
\<close>

definition mongoNextNumber :: "nat \<Rightarrow> string list \<Rightarrow> string" where
  "mongoNextNumber year numeros =
     (let prefix = ''DAO-'' @ toString year @ ''-'';
          currentYearDaos =
            filter (\<lambda>n. take (length prefix) n = prefix \<and> length n = length prefix + 3
                         \<and> list_all isDigit (drop (length prefix) n)) numeros
      in if length currentYearDaos = 0 then ''DAO-'' @ toString year @ ''-001''
         else
           let numbers = map (\<lambda>n. case searchSeq n of None \<Rightarrow> 0 | Some q \<Rightarrow> parseInt q)
                           currentYearDaos;
               nextNumber = (if length numbers > 0 then mathMax numbers + 1 else 1)
           in ''DAO-'' @ toString year @ ''-'' @ padStart3 (toString nextNumber))"

text \<open>
  The contract of \<open>nextDaoNumber\<close> in the words of the specification, to compare the routes
  with: the sequence numbers of the serials that match \<^verbatim>\<open>^DAO-<year>-(\d{3})$\<close>; none gives
  \<open>001\<close>, otherwise the maximum plus one padded to three digits, and a failure when that
  exceeds 999.
\<close>

definition seqOfYear :: "nat \<Rightarrow> string \<Rightarrow> nat option" where
  "seqOfYear year n =
     (let prefix = ''DAO-'' @ toString year @ ''-''
      in if take (length prefix) n = prefix \<and> length n = length prefix + 3
            \<and> list_all isDigit (drop (length prefix) n)
         then Some (parseInt (drop (length prefix) n))
         else None)"

datatype capacity_error = YearLimitExceeded

definition nextDaoNumber :: "string list \<Rightarrow> nat \<Rightarrow> capacity_error + string" where
  "nextDaoNumber existingNumeros year =
     (let seqs = List.map_filter (seqOfYear year) existingNumeros
      in if seqs = [] then Inr (''DAO-'' @ toString year @ ''-001'')
         else if Max (set seqs) + 1 > 999 then Inl YearLimitExceeded
         else Inr (''DAO-'' @ toString year @ ''-'' @ padStart3 (toString (Max (set seqs) + 1))))"

section \<open>Status and progress of a Dao\<close>

text \<open>
  The colour of a task row (src/unnamed/part_016, lines 113 to 129, \<open>getProgressColor\<close>);
  \<open>daysDiff\<close> is the property that the page passes down from \<open>formatDate\<close>.
  \<^verbatim>\<open>
  if (progress === 100) return "bg-gray-400";
  if (daysDiff < 0) return "bg-red-500";
  if (daysDiff >= 5) return "bg-green-500";
  if (daysDiff <= 3) return "bg-red-500";
  return "bg-blue-500";\<close>
\<close>

definition getProgressColor :: "int \<Rightarrow> int \<Rightarrow> string" where
  "getProgressColor daysDiff p =
     (if p = 100 then ''bg-gray-400''
      else if daysDiff < 0 then ''bg-red-500''
      else if daysDiff \<ge> 5 then ''bg-green-500''
      else if daysDiff \<le> 3 then ''bg-red-500''
      else ''bg-blue-500'')"

text \<open>
  \<open>daysDiff\<close> of \<open>formatDate\<close> (part_016, lines 1015 to 1020), on the two instants in
  milliseconds:
  \<^verbatim>\<open>Math.ceil((date.getTime() - today.getTime()) / (1000 * 60 * 60 * 24))\<close>.
\<close>

definition formatDate_daysDiff :: "int \<Rightarrow> int \<Rightarrow> int" where
  "formatDate_daysDiff date today = - ((today - date) div (1000 * 60 * 60 * 24))"

datatype DaoStatus = Completed | Urgent | Safe | Default

text \<open>
  Modelled from the spec: \<open>calculateDaoStatus\<close> is defined in \<^verbatim>\<open>@shared/dao\<close>, which is not
  among the sources (only its callers are). Section 4.1 of the specification: "1. If
  progress == 100, completed, regardless of date. 2. Else compute daysDiff = dateDepot -
  today in whole days (date-only, not time-of-day); if daysDiff < 0, urgent. 3. If
  daysDiff >= 5, safe. 4. If daysDiff <= 3, urgent. 5. Otherwise default." A date is the
  number of its day; \<open>today\<close> is a parameter.
\<close>

definition calculateDaoStatus :: "int \<Rightarrow> int \<Rightarrow> int \<Rightarrow> DaoStatus" where
  "calculateDaoStatus today depot p =
     (if p = 100 then Completed
      else
        let daysDiff = depot - today
        in if daysDiff < 0 then Urgent
           else if daysDiff \<ge> 5 then Safe
           else if daysDiff \<le> 3 then Urgent
           else Default)"

text \<open>The colour that the page shows for a status (gray, red, green, blue).\<close>

fun statusColor :: "DaoStatus \<Rightarrow> string" where
  "statusColor Completed = ''bg-gray-400''"
| "statusColor Urgent = ''bg-red-500''"
| "statusColor Safe = ''bg-green-500''"
| "statusColor Default = ''bg-blue-500''"

text \<open>
  Modelled from the spec: \<open>calculateDaoProgress\<close> is defined in \<^verbatim>\<open>@shared/dao\<close>, which is
  not among the sources. Section 4.1 of the specification: "consider only tasks with
  isApplicable = true. If there are none, result is 0. Otherwise, result = round(average of
  each applicable task's progress value, treating null as 0) to the nearest integer, clamped
  to [0,100]." \<open>round\<close> rounds a half upwards, as \<^verbatim>\<open>Math.round\<close> does.
\<close>

definition progressValue :: "DaoTask \<Rightarrow> int" where
  "progressValue t = (case progress t of None \<Rightarrow> 0 | Some p \<Rightarrow> p)"

definition calculateDaoProgress :: "DaoTask list \<Rightarrow> int" where
  "calculateDaoProgress ts =
     (let applicableTasks = filter isApplicable ts
      in if applicableTasks = [] then 0
         else max 0 (min 100
                (round (of_int (sum_list (map progressValue applicableTasks))
                        / of_int (int (length applicableTasks)) :: rat))))"

section \<open>Example values\<close>

text \<open>
  A storage with one Dao of three tasks, an admin and a user (the first two seed users of
  the authentication service), and requests against that Dao; the concrete instances of the
  theorems below are evaluated on them.
\<close>

text \<open>The HTTP status of a response (\<^verbatim>\<open>res.json\<close> without \<^verbatim>\<open>res.status\<close> answers 200).\<close>

fun status :: "response \<Rightarrow> nat" where
  "status (Error s m c) = s"
| "status (DaoJson s d) = s"
| "status (NextNumberJson n) = 200"
| "status (TaskDeletedJson i n d) = 200"

definition ex_patch :: "jsvalue \<Rightarrow> jsvalue \<Rightarrow> jsvalue \<Rightarrow> jsvalue \<Rightarrow> TaskUpdateBody" where
  "ex_patch p c a s = \<lparr>body_progress = p, body_comment = c, body_isApplicable = a, body_assignedTo = s\<rparr>"

definition ex_admin :: AuthUser where
  "ex_admin = \<lparr>user_id = ''1'', user_name = ''Admin User'', user_email = ''admin@2snd.fr'', user_role = Admin\<rparr>"

definition ex_user :: AuthUser where
  "ex_user = \<lparr>user_id = ''2'', user_name = ''Marie Dubois'', user_email = ''marie.dubois@2snd.fr'', user_role = User\<rparr>"

definition ex_task :: "int \<Rightarrow> DaoTask" where
  "ex_task i = \<lparr>task_id = i, task_name = ''Task'', progress = Some 50, task_comment = None,
                isApplicable = True, assignedTo = None, lastUpdatedBy = None, lastUpdatedAt = None\<rparr>"

definition ex_member :: TeamMember where
  "ex_member = \<lparr>member_id = ''m1'', member_name = ''Marie'', member_role = chef_equipe, member_email = None\<rparr>"

definition ex_dao :: Dao where
  "ex_dao = \<lparr>dao_id = ''dao1'', numeroListe = ''DAO-2025-001'', objetDossier = ''Objet'',
             reference = ''REF-1'', autoriteContractante = ''Mairie'', dateDepot = ''2025-07-01'',
             equipe = [ex_member], tasks = [ex_task 1, ex_task 2, ex_task 3],
             createdAt = ''2025-01-01T00:00:00.000Z'', updatedAt = ''2025-01-01T00:00:00.000Z''\<rparr>"

definition ex_storage :: DaoStorage where
  "ex_storage = [ex_dao]"

definition ex_now :: string where
  "ex_now = ''2025-06-01T12:00:00.000Z''"

definition ex_request :: "AuthUser \<Rightarrow> int option \<Rightarrow> TaskRequest" where
  "ex_request u n = \<lparr>req_user = Some u, req_id = ''dao1'', req_taskId = n\<rparr>"

definition ex_newTaskBody :: CreateTaskBody where
  "ex_newTaskBody = \<lparr>new_name = ''New task'', new_isApplicable = True, new_progress = None,
                     new_comment = None, new_assignedTo = None\<rparr>"

definition ex_assign :: TaskUpdateBody where
  "ex_assign = ex_patch JUndefined JUndefined JUndefined (JString ''ghost'')"



definition ex_tasksBody :: UpdateDaoBody where
  "ex_tasksBody =
     \<lparr>b_numeroListe = None, b_objetDossier = None, b_reference = None,
      b_autoriteContractante = None, b_dateDepot = None, b_equipe = None,
      b_tasks = Some [(ex_task 1)\<lparr>task_name := ''Renamed''\<rparr>, ex_task 9]\<rparr>"

definition ex_account :: User where
  "ex_account = \<lparr>usr_id = ''2'', usr_name = ''Marie Dubois'', usr_email = ''marie.dubois@2snd.fr'',
                 usr_role = User, usr_createdAt = ''2025-01-01T00:00:00.000Z'',
                 usr_lastLogin = None, isActive = True\<rparr>"

definition ex_auth :: AuthState where
  "ex_auth = \<lparr>users = [ex_account],
              userPasswords = [''marie.dubois@2snd.fr'' \<mapsto> ''hash-of-marie123''],
              resetTokens = Map.empty\<rparr>"

text \<open>The state after \<open>generateResetToken\<close> drew the token \<open>A1B2C3\<close> at the instant 1000.\<close>

definition ex_issued :: AuthState where
  "ex_issued = snd (generateResetToken ''A1B2C3'' 1000 ex_auth ''Marie.Dubois@2snd.fr'')"

definition ex_hash :: "string \<Rightarrow> string" where
  "ex_hash p = ''hash-of-'' @ p"

definition ex_progressTasks :: "DaoTask list" where
  "ex_progressTasks =
     [(ex_task 1)\<lparr>progress := Some 50\<rparr>,
      (ex_task 2)\<lparr>progress := Some 100, isApplicable := False\<rparr>,
      (ex_task 3)\<lparr>progress := Some 75\<rparr>,
      (ex_task 4)\<lparr>progress := None\<rparr>]"

definition ex_progressTasks_reordered :: "DaoTask list" where
  "ex_progressTasks_reordered =
     [(ex_task 4)\<lparr>progress := None\<rparr>,
      (ex_task 3)\<lparr>progress := Some 75\<rparr>,
      (ex_task 2)\<lparr>progress := Some 100, isApplicable := False\<rparr>,
      (ex_task 1)\<lparr>progress := Some 50\<rparr>]"

definition ex_progressTasks_edited :: "DaoTask list" where
  "ex_progressTasks_edited =
     [(ex_task 1)\<lparr>progress := Some 50\<rparr>,
      (ex_task 2)\<lparr>task_name := ''Autre'', progress := None, isApplicable := False,
                  assignedTo := Some ''m1''\<rparr>,
      (ex_task 3)\<lparr>progress := Some 75\<rparr>,
      (ex_task 4)\<lparr>progress := None\<rparr>]"

section \<open>Helper lemmas\<close>

lemmas express_defs =
  putTask_def putTask_handler_def postTask_def postTask_handler_def putTaskName_def
  putTaskName_handler_def deleteTask_def deleteTask_handler_def requireAdmin_def requireUser_def
  authorize_def findIndexById_def findById_def updateAtIndex_def Let_def

lemmas schema_defs =
  taskUpdateSchema_def zNumberOpt_def zStringOpt_def zBooleanOpt_def createTaskSchema_def
  updateTaskNameSchema_def optAll_def

lemmas ex_defs =
  ex_admin_def ex_user_def ex_task_def ex_member_def ex_dao_def ex_storage_def ex_now_def
  ex_request_def ex_newTaskBody_def ex_patch_def idIndex_def

lemma stripTags_example: "sanitizeString ''  <b>bold</b> a < b  '' = ''bold a < b''"
  by (simp add: sanitizeString_def trim_def isWhite_def)

lemma idIndex_snoc:
  "idIndex (st @ [d]) = (idIndex st)(dao_id d \<mapsto> length st)"
  by (simp add: idIndex_def)

lemma idIndex_Some: "idIndex st i = Some k \<Longrightarrow> k < length st \<and> dao_id (st ! k) = i"
proof (induction st arbitrary: k rule: rev_induct)
  case Nil
  then show ?case by (simp add: idIndex_def)
next
  case (snoc d st)
  show ?case
  proof (cases "dao_id d = i")
    case True
    with snoc.prems have "k = length st" by (simp add: idIndex_snoc)
    with True show ?thesis by simp
  next
    case False
    with snoc.prems have "idIndex st i = Some k" by (simp add: idIndex_snoc)
    from snoc.IH [OF this] show ?thesis by (simp add: nth_append)
  qed
qed

lemma mathMax_Max: "xs \<noteq> [] \<Longrightarrow> mathMax xs = Max (set xs)"
  by (cases xs) (simp_all add: Max.set_eq_fold del: set_simps)






text \<open>
  Beyond the safe integers the addition no longer yields a new id: with the ids 1 and
  \<open>2 ^ 53\<close> the new id is \<open>2 ^ 53\<close> again.
\<close>

lemma newTaskId_beyond_safe:
  "newTaskId [t1\<lparr>task_id := 1\<rparr>, t2\<lparr>task_id := 2 ^ 53\<rparr>] = 2 ^ 53"
  by (simp add: newTaskId_def jsAddOne_def)

lemma find_None_iff_ids: "find (\<lambda>t. task_id t = n) ts = None \<longleftrightarrow> n \<notin> task_id ` set ts"
  by (auto simp: find_None_iff)

lemma find_mapFirst:
  "find P xs = Some t \<Longrightarrow> P (f t) \<Longrightarrow> find P (mapFirst P f xs) = Some (f t)"
  by (induction xs) (auto split: if_splits)

lemma find_Some_P: "find P xs = Some t \<Longrightarrow> P t \<and> t \<in> set xs"
  by (induction xs) (auto split: if_splits)

lemma findById_index [simp]: "findIndexById st i = Some k \<Longrightarrow> findById st i = Some (st ! k)"
  by (simp add: findIndexById_def findById_def)

lemma findIndexById_bound: "findIndexById st i = Some k \<Longrightarrow> k < length st"
  by (simp add: findIndexById_def idIndex_Some)

section \<open>Lemmas on adding and deleting a task\<close>





section \<open>C4: the id of an added task\<close>




section \<open>Lemmas on the task update\<close>

lemma putTask_authorized:
  "requireUser (req_user req) = None \<Longrightarrow>
   putTask now1 now2 st req body = putTask_handler now1 now2 st (the (req_user req)) req body"
  by (simp add: putTask_def)

lemma putTask_success:
  assumes auth: "requireUser (req_user req) = None"
    and idok: "req_id req \<noteq> []" "length (req_id req) \<le> 100"
    and tid: "req_taskId req = Some n" "1 \<le> n"
    and v: "taskUpdateSchema body = Some v"
    and dao: "findIndexById st (req_id req) = Some k"
    and t: "find (\<lambda>t. task_id t = n) (tasks (st ! k)) = Some t"
  shows "putTask now1 now2 st req body =
      (DaoJson 200 ((st ! k)\<lparr>tasks := mapFirst (\<lambda>t. task_id t = n)
                       (applyTaskUpdate v (user_id (the (req_user req))) now1) (tasks (st ! k)),
                     updatedAt := now2\<rparr>),
       st[k := (st ! k)\<lparr>tasks := mapFirst (\<lambda>t. task_id t = n)
                       (applyTaskUpdate v (user_id (the (req_user req))) now1) (tasks (st ! k)),
                     updatedAt := now2\<rparr>])"
  using assms findIndexById_bound [OF dao]
  by (simp add: putTask_def putTask_handler_def updateAtIndex_def Let_def)

lemma mongoPutTask_success:
  assumes auth: "requireUser u = None"
    and t: "find (\<lambda>t. task_id t = n) (tasks dao) = Some t"
  shows "mongoPutTask now (Some dao) u (Some n) body =
      Inr (dao\<lparr>tasks := mapFirst (\<lambda>t. task_id t = n)
                   (mongoApplyTaskUpdate body (user_id (the u)) now) (tasks dao)\<rparr>)"
  using assms by (simp add: mongoPutTask_def mongoPutTask_handler_def)

lemma taskUpdateSchema_Some:
  "taskUpdateSchema b = Some v \<Longrightarrow>
     upd_progress v = (case body_progress b of JNumber p \<Rightarrow> Some p | _ \<Rightarrow> None)
   \<and> (\<forall>p. body_progress b = JNumber p \<longrightarrow> 0 \<le> p \<and> p \<le> 100)
   \<and> upd_comment v = (case body_comment b of JString c \<Rightarrow> Some c | _ \<Rightarrow> None)
   \<and> upd_isApplicable v = (case body_isApplicable b of JBool a \<Rightarrow> Some a | _ \<Rightarrow> None)
   \<and> upd_assignedTo v = (case body_assignedTo b of JString s \<Rightarrow> Some s | _ \<Rightarrow> None)"
  by (auto simp: taskUpdateSchema_def zNumberOpt_def zStringOpt_def zBooleanOpt_def
      split: option.splits jsvalue.splits if_splits)

lemma mapFirst_find:
  "find P xs = Some t \<Longrightarrow> mapFirst P f xs = mapFirst P (\<lambda>_. f t) xs"
  by (induction xs) (auto split: if_splits)

lemma putTask_result:
  assumes auth: "requireUser (req_user req) = None"
    and idok: "req_id req \<noteq> []" "length (req_id req) \<le> 100"
    and tid: "req_taskId req = Some n" "1 \<le> n"
    and v: "taskUpdateSchema body \<noteq> None"
    and dao: "findIndexById st (req_id req) = Some k"
    and t: "find (\<lambda>t. task_id t = n) (tasks (st ! k)) = Some t"
  shows "putTask now1 now2 st req body =
      (DaoJson 200 ((st ! k)\<lparr>tasks := mapFirst (\<lambda>t. task_id t = n) (\<lambda>_.
               t\<lparr>progress := (case body_progress body of
                                JNumber p \<Rightarrow> Some p | _ \<Rightarrow> progress t),
                  task_comment := (case body_comment body of
                                JString c \<Rightarrow> Some (sanitizeString c) | _ \<Rightarrow> task_comment t),
                  isApplicable := (case body_isApplicable body of
                                JBool a \<Rightarrow> a | _ \<Rightarrow> isApplicable t),
                  assignedTo := (case body_assignedTo body of
                                JString s \<Rightarrow> Some (sanitizeString s) | _ \<Rightarrow> assignedTo t),
                  lastUpdatedBy := Some (user_id (the (req_user req))),
                  lastUpdatedAt := Some now1\<rparr>) (tasks (st ! k)),
              updatedAt := now2\<rparr>),
       st[k := (st ! k)\<lparr>tasks := mapFirst (\<lambda>t. task_id t = n) (\<lambda>_.
               t\<lparr>progress := (case body_progress body of
                                JNumber p \<Rightarrow> Some p | _ \<Rightarrow> progress t),
                  task_comment := (case body_comment body of
                                JString c \<Rightarrow> Some (sanitizeString c) | _ \<Rightarrow> task_comment t),
                  isApplicable := (case body_isApplicable body of
                                JBool a \<Rightarrow> a | _ \<Rightarrow> isApplicable t),
                  assignedTo := (case body_assignedTo body of
                                JString s \<Rightarrow> Some (sanitizeString s) | _ \<Rightarrow> assignedTo t),
                  lastUpdatedBy := Some (user_id (the (req_user req))),
                  lastUpdatedAt := Some now1\<rparr>) (tasks (st ! k)),
              updatedAt := now2\<rparr>])"
proof -
  from v obtain v' where v': "taskUpdateSchema body = Some v'" by auto
  note fields = taskUpdateSchema_Some [OF v']
  have f: "applyTaskUpdate v' a now1 t =
     t\<lparr>progress := (case body_progress body of JNumber p \<Rightarrow> Some p | _ \<Rightarrow> progress t),
       task_comment := (case body_comment body of
                      JString c \<Rightarrow> Some (sanitizeString c) | _ \<Rightarrow> task_comment t),
       isApplicable := (case body_isApplicable body of
                      JBool a \<Rightarrow> a | _ \<Rightarrow> isApplicable t),
       assignedTo := (case body_assignedTo body of
                      JString s \<Rightarrow> Some (sanitizeString s) | _ \<Rightarrow> assignedTo t),
       lastUpdatedBy := Some a,
       lastUpdatedAt := Some now1\<rparr>" for a
    using fields by (auto simp: applyTaskUpdate_def split: jsvalue.splits)
  show ?thesis
    using putTask_success [OF auth idok tid v' dao t, of now1 now2]
      mapFirst_find [OF t, of "applyTaskUpdate v' (user_id (the (req_user req))) now1"]
    by (simp add: f)
qed



section \<open>C5: an update of a task that does not exist\<close>

text \<open>
  C5. Let the request address an existing Dao (the one at index \<open>k\<close> of the storage) and a
  task id \<open>n\<close> that no task of that Dao has. Then PUT /api/dao/:id/tasks/:taskId fails (its
  response is an error of status 400 or more) and the storage after the request is the storage
  before it, whatever the actor, the patch and the clock are: no Dao's \<open>updatedAt\<close> and no
  task's \<open>lastUpdatedBy\<close> or \<open>lastUpdatedAt\<close> changes. When the request is well formed
  otherwise (an authenticated actor of role admin or user, a Dao id of 1 to 100 characters, a
  task id of at least 1, a patch that passes \<open>taskUpdateSchema\<close>), the error is 404
  \<open>TASK_NOT_FOUND\<close>. The MongoDB route likewise answers with an error, 404 "Task not found"
  for an authorized actor, and hands no document to \<open>save\<close>.
\<close>

theorem putTask_absent_task_NotFound:
  assumes dao: "findIndexById st (req_id req) = Some k"
    and tid: "req_taskId req = Some n"
    and absent: "n \<notin> task_id ` set (tasks (st ! k))"
  shows "snd (putTask now1 now2 st req body) = st
    \<and> (\<exists>s m c. fst (putTask now1 now2 st req body) = Error s m c \<and> 400 \<le> s)
    \<and> (requireUser (req_user req) = None \<and> req_id req \<noteq> [] \<and> length (req_id req) \<le> 100
         \<and> 1 \<le> n \<and> taskUpdateSchema body \<noteq> None
        \<longrightarrow> putTask now1 now2 st req body = (Error 404 ''Task not found'' ''TASK_NOT_FOUND'', st))
    \<and> (\<exists>r. mongoPutTask now1 (Some (st ! k)) (req_user req) (Some n) body = Inl r)
    \<and> (requireUser (req_user req) = None
        \<longrightarrow> mongoPutTask now1 (Some (st ! k)) (req_user req) (Some n) body
            = Inl (Error 404 ''Task not found'' []))"
proof -
  have nf: "find (\<lambda>t. task_id t = n) (tasks (st ! k)) = None"
    using absent by (simp add: find_None_iff_ids)
  have h: "putTask_handler now1 now2 st u req body =
      (if req_id req = [] \<or> length (req_id req) > 100
       then (Error 400 ''Invalid DAO ID'' ''INVALID_DAO_ID'', st)
       else if n < 1 then (Error 400 ''Invalid task ID'' ''INVALID_TASK_ID'', st)
       else if taskUpdateSchema body = None
       then (Error 400 ''Validation error'' ''VALIDATION_ERROR'', st)
       else (Error 404 ''Task not found'' ''TASK_NOT_FOUND'', st))" for u
    using dao tid nf by (auto simp: putTask_handler_def Let_def split: option.splits)
  have r: "putTask now1 now2 st req body =
      (case requireUser (req_user req) of Some r \<Rightarrow> (r, st)
       | None \<Rightarrow> putTask_handler now1 now2 st (the (req_user req)) req body)"
    by (simp add: putTask_def)
  have a: "requireUser u = Some r \<Longrightarrow> \<exists>s m c. r = Error s m c \<and> 400 \<le> s" for u r
    by (auto simp: requireUser_def authorize_def split: option.splits if_splits)
  have 1: "snd (putTask now1 now2 st req body) = st"
    unfolding r h by (simp split: option.splits)
  have 2: "\<exists>s m c. fst (putTask now1 now2 st req body) = Error s m c \<and> 400 \<le> s"
    unfolding r h using a by (auto split: option.splits)
  have 3: "requireUser (req_user req) = None \<and> req_id req \<noteq> [] \<and> length (req_id req) \<le> 100
         \<and> 1 \<le> n \<and> taskUpdateSchema body \<noteq> None
        \<longrightarrow> putTask now1 now2 st req body = (Error 404 ''Task not found'' ''TASK_NOT_FOUND'', st)"
    unfolding r h by auto
  have 4: "\<exists>r. mongoPutTask now1 (Some (st ! k)) (req_user req) (Some n) body = Inl r"
    using nf by (simp add: mongoPutTask_def mongoPutTask_handler_def split: option.splits)
  have 5: "requireUser (req_user req) = None
        \<longrightarrow> mongoPutTask now1 (Some (st ! k)) (req_user req) (Some n) body
            = Inl (Error 404 ''Task not found'' [])"
    using nf by (simp add: mongoPutTask_def mongoPutTask_handler_def)
  from 1 2 3 4 5 show ?thesis by blast
qed

text \<open>
  The instance of C5 on the example storage: the user patches task 7 of the Dao whose tasks
  have the ids 1, 2 and 3.
\<close>

theorem putTask_absent_task_NotFound_witness:
  "findIndexById ex_storage (req_id (ex_request ex_user (Some 7))) = Some 0
   \<and> req_taskId (ex_request ex_user (Some 7)) = Some 7
   \<and> 7 \<notin> task_id ` set (tasks (ex_storage ! 0))
   \<and> requireUser (req_user (ex_request ex_user (Some 7))) = None
   \<and> taskUpdateSchema (ex_patch (JNumber 80) JUndefined JUndefined JUndefined) \<noteq> None
   \<and> putTask ex_now ex_now ex_storage (ex_request ex_user (Some 7))
        (ex_patch (JNumber 80) JUndefined JUndefined JUndefined)
      = (Error 404 ''Task not found'' ''TASK_NOT_FOUND'', ex_storage)
   \<and> mongoPutTask ex_now (Some (ex_storage ! 0)) (req_user (ex_request ex_user (Some 7))) (Some 7)
        (ex_patch (JNumber 80) JUndefined JUndefined JUndefined)
      = Inl (Error 404 ''Task not found'' [])"
  using putTask_absent_task_NotFound [of ex_storage "ex_request ex_user (Some 7)" 0 7 ex_now ex_now
      "ex_patch (JNumber 80) JUndefined JUndefined JUndefined"]
  by (simp add: express_defs schema_defs ex_defs)

section \<open>C6: assigning a task to somebody outside the team\<close>

text \<open>
  C6 (as amended). A task update whose \<open>assignedTo\<close> is a string is accepted whatever the
  Dao's \<open>equipe\<close> is: for a well-formed request on an existing task, the express route
  answers 200 and the task's \<open>assignedTo\<close> becomes the string with its HTML tags stripped and
  trimmed; the MongoDB route hands to \<open>save\<close> the document in which the task's
  \<open>assignedTo\<close> is the string itself. Neither route reads \<open>equipe\<close>, and no response is an
  InvalidReference error.
\<close>

theorem putTask_assignedTo_unchecked:
  assumes auth: "requireUser (req_user req) = None"
    and idok: "req_id req \<noteq> []" "length (req_id req) \<le> 100"
    and tid: "req_taskId req = Some n" "1 \<le> n"
    and s: "body_assignedTo body = JString s"
    and v: "taskUpdateSchema body \<noteq> None"
    and dao: "findIndexById st (req_id req) = Some k"
    and t: "find (\<lambda>t. task_id t = n) (tasks (st ! k)) = Some t"
  shows "(\<exists>d t'. putTask now1 now2 st req body = (DaoJson 200 d, st[k := d])
            \<and> find (\<lambda>t. task_id t = n) (tasks d) = Some t'
            \<and> assignedTo t' = Some (sanitizeString s))
       \<and> (\<exists>d t'. mongoPutTask now1 (Some (st ! k)) (req_user req) (Some n) body = Inr d
            \<and> find (\<lambda>t. task_id t = n) (tasks d) = Some t'
            \<and> assignedTo t' = Some s)"
proof -
  from v obtain v' where v': "taskUpdateSchema body = Some v'" by auto
  from taskUpdateSchema_Some [OF v'] s have a: "upd_assignedTo v' = Some s" by simp
  let ?f = "applyTaskUpdate v' (user_id (the (req_user req))) now1"
  let ?g = "mongoApplyTaskUpdate body (user_id (the (req_user req))) now1"
  have idt: "task_id t = n" using find_Some_P [OF t] by simp
  have "find (\<lambda>t. task_id t = n) (mapFirst (\<lambda>t. task_id t = n) ?f (tasks (st ! k))) = Some (?f t)"
    using t idt by (intro find_mapFirst) (simp_all add: applyTaskUpdate_def)
  moreover have "assignedTo (?f t) = Some (sanitizeString s)"
    using a by (simp add: applyTaskUpdate_def)
  ultimately have 1: "\<exists>d t'. putTask now1 now2 st req body = (DaoJson 200 d, st[k := d])
            \<and> find (\<lambda>t. task_id t = n) (tasks d) = Some t'
            \<and> assignedTo t' = Some (sanitizeString s)"
    using putTask_success [OF auth idok tid v' dao t, of now1 now2] by simp
  have "find (\<lambda>t. task_id t = n) (mapFirst (\<lambda>t. task_id t = n) ?g (tasks (st ! k))) = Some (?g t)"
    using t idt by (intro find_mapFirst) (simp_all add: mongoApplyTaskUpdate_def)
  moreover have "assignedTo (?g t) = Some s"
    using s by (simp add: mongoApplyTaskUpdate_def)
  ultimately have 2: "\<exists>d t'. mongoPutTask now1 (Some (st ! k)) (req_user req) (Some n) body = Inr d
            \<and> find (\<lambda>t. task_id t = n) (tasks d) = Some t'
            \<and> assignedTo t' = Some s"
    using mongoPutTask_success [OF auth t, of now1 body] by simp
  from 1 2 show ?thesis by blast
qed

text \<open>
  The instance of C6 on the example storage: the user assigns task 1 to the id \<open>ghost\<close>.
\<close>

theorem putTask_assignedTo_unchecked_witness:
  "requireUser (req_user (ex_request ex_user (Some 1))) = None
   \<and> body_assignedTo ex_assign = JString ''ghost''
   \<and> taskUpdateSchema ex_assign \<noteq> None
   \<and> findIndexById ex_storage (req_id (ex_request ex_user (Some 1))) = Some 0
   \<and> find (\<lambda>t. task_id t = 1) (tasks (ex_storage ! 0)) = Some (ex_task 1)
   \<and> status (fst (putTask ex_now ex_now ex_storage (ex_request ex_user (Some 1)) ex_assign)) = 200"
  using putTask_assignedTo_unchecked [of "ex_request ex_user (Some 1)" 1 ex_assign "''ghost''"
      ex_storage 0 "ex_task 1" ex_now ex_now]
  by (simp add: express_defs schema_defs ex_defs ex_assign_def)

text \<open>
  C6 as stated fails: \<open>ghost\<close> is the id of no member of the example Dao's team, and the
  update that assigns task 1 to \<open>ghost\<close> succeeds in both backends and stores the dangling id.
\<close>

theorem dangling_assignee_accepted_counterexample:
  "''ghost'' \<notin> member_id ` set (equipe (ex_storage ! 0))
   \<and> status (fst (putTask ex_now ex_now ex_storage (ex_request ex_user (Some 1)) ex_assign)) = 200
   \<and> map assignedTo (tasks (snd (putTask ex_now ex_now ex_storage (ex_request ex_user (Some 1))
                                   ex_assign) ! 0)) = [Some ''ghost'', None, None]
   \<and> \<not> isl (mongoPutTask ex_now (Some (ex_storage ! 0)) (Some ex_user) (Some 1) ex_assign)
   \<and> map assignedTo (tasks (projr
        (mongoPutTask ex_now (Some (ex_storage ! 0)) (Some ex_user) (Some 1) ex_assign)))
       = [Some ''ghost'', None, None]"
  by (simp add: express_defs schema_defs ex_defs ex_assign_def applyTaskUpdate_def
      sanitizeString_def trim_def isWhite_def mongoPutTask_def mongoPutTask_handler_def
      mongoApplyTaskUpdate_def)

section \<open>C7: the fields a task update applies\<close>




section \<open>C8: what an actor of role user may do to tasks\<close>

text \<open>
  C8. For an authenticated actor of role \<open>user\<close>, adding a task, deleting a task and renaming
  a task are answered 403 and leave the storage as it is, whatever the rest of the request is.
  The same actor's update of an existing task of an existing Dao with a patch that passes
  \<open>taskUpdateSchema\<close> is answered 200 with the updated Dao, which is stored in the place of
  the Dao: its first task with the id has the progress, the comment, the applicability and the
  assignee of the patch, each where the patch has one (comment and assignee sanitized), and
  is stamped with the actor and the time; nothing else of the Dao changes but \<open>updatedAt\<close>.
\<close>

theorem user_role_task_operations:
  assumes u: "req_user req = Some usr" and role: "user_role usr = User"
  shows "status (fst (postTask now1 now2 st req cbody)) = 403
       \<and> snd (postTask now1 now2 st req cbody) = st
       \<and> status (fst (deleteTask now1 st req)) = 403
       \<and> snd (deleteTask now1 st req) = st
       \<and> status (fst (putTaskName now1 now2 st req nm)) = 403
       \<and> snd (putTaskName now1 now2 st req nm) = st
       \<and> (req_id req \<noteq> [] \<and> length (req_id req) \<le> 100 \<and> req_taskId req = Some n \<and> 1 \<le> n
           \<and> taskUpdateSchema body \<noteq> None \<and> findIndexById st (req_id req) = Some k
           \<and> find (\<lambda>t. task_id t = n) (tasks (st ! k)) = Some t
          \<longrightarrow> putTask now1 now2 st req body =
              (DaoJson 200 ((st ! k)\<lparr>tasks := mapFirst (\<lambda>t. task_id t = n) (\<lambda>_.
               t\<lparr>progress := (case body_progress body of
                                JNumber p \<Rightarrow> Some p | _ \<Rightarrow> progress t),
                  task_comment := (case body_comment body of
                                JString c \<Rightarrow> Some (sanitizeString c) | _ \<Rightarrow> task_comment t),
                  isApplicable := (case body_isApplicable body of
                                JBool a \<Rightarrow> a | _ \<Rightarrow> isApplicable t),
                  assignedTo := (case body_assignedTo body of
                                JString s \<Rightarrow> Some (sanitizeString s) | _ \<Rightarrow> assignedTo t),
                  lastUpdatedBy := Some (user_id usr),
                  lastUpdatedAt := Some now1\<rparr>) (tasks (st ! k)),
              updatedAt := now2\<rparr>),
               st[k := (st ! k)\<lparr>tasks := mapFirst (\<lambda>t. task_id t = n) (\<lambda>_.
               t\<lparr>progress := (case body_progress body of
                                JNumber p \<Rightarrow> Some p | _ \<Rightarrow> progress t),
                  task_comment := (case body_comment body of
                                JString c \<Rightarrow> Some (sanitizeString c) | _ \<Rightarrow> task_comment t),
                  isApplicable := (case body_isApplicable body of
                                JBool a \<Rightarrow> a | _ \<Rightarrow> isApplicable t),
                  assignedTo := (case body_assignedTo body of
                                JString s \<Rightarrow> Some (sanitizeString s) | _ \<Rightarrow> assignedTo t),
                  lastUpdatedBy := Some (user_id usr),
                  lastUpdatedAt := Some now1\<rparr>) (tasks (st ! k)),
              updatedAt := now2\<rparr>]))"
proof -
  have adm: "requireAdmin (req_user req) = Some (Error 403 ''Insufficient permissions'' [])"
    using u role by (simp add: requireAdmin_def authorize_def)
  have usr: "requireUser (req_user req) = None"
    using u role by (simp add: requireUser_def authorize_def)
  have 1: "postTask now1 now2 st req cbody = (Error 403 ''Insufficient permissions'' [], st)"
    by (simp add: postTask_def adm)
  have 2: "deleteTask now1 st req = (Error 403 ''Insufficient permissions'' [], st)"
    by (simp add: deleteTask_def adm)
  have 3: "putTaskName now1 now2 st req nm = (Error 403 ''Insufficient permissions'' [], st)"
    by (simp add: putTaskName_def adm)
  have 4: "putTask now1 now2 st req body =
              (DaoJson 200 ((st ! k)\<lparr>tasks := mapFirst (\<lambda>t. task_id t = n) (\<lambda>_.
               t\<lparr>progress := (case body_progress body of
                                JNumber p \<Rightarrow> Some p | _ \<Rightarrow> progress t),
                  task_comment := (case body_comment body of
                                JString c \<Rightarrow> Some (sanitizeString c) | _ \<Rightarrow> task_comment t),
                  isApplicable := (case body_isApplicable body of
                                JBool a \<Rightarrow> a | _ \<Rightarrow> isApplicable t),
                  assignedTo := (case body_assignedTo body of
                                JString s \<Rightarrow> Some (sanitizeString s) | _ \<Rightarrow> assignedTo t),
                  lastUpdatedBy := Some (user_id usr),
                  lastUpdatedAt := Some now1\<rparr>) (tasks (st ! k)),
              updatedAt := now2\<rparr>),
               st[k := (st ! k)\<lparr>tasks := mapFirst (\<lambda>t. task_id t = n) (\<lambda>_.
               t\<lparr>progress := (case body_progress body of
                                JNumber p \<Rightarrow> Some p | _ \<Rightarrow> progress t),
                  task_comment := (case body_comment body of
                                JString c \<Rightarrow> Some (sanitizeString c) | _ \<Rightarrow> task_comment t),
                  isApplicable := (case body_isApplicable body of
                                JBool a \<Rightarrow> a | _ \<Rightarrow> isApplicable t),
                  assignedTo := (case body_assignedTo body of
                                JString s \<Rightarrow> Some (sanitizeString s) | _ \<Rightarrow> assignedTo t),
                  lastUpdatedBy := Some (user_id usr),
                  lastUpdatedAt := Some now1\<rparr>) (tasks (st ! k)),
              updatedAt := now2\<rparr>])"
    if ok: "req_id req \<noteq> []" "length (req_id req) \<le> 100" "req_taskId req = Some n" "1 \<le> n"
      "taskUpdateSchema body \<noteq> None" "findIndexById st (req_id req) = Some k"
      "find (\<lambda>t. task_id t = n) (tasks (st ! k)) = Some t"
    using putTask_result [OF usr ok(1-7), of now1 now2] by (simp add: u)
  from 1 2 3 4 show ?thesis by simp
qed

text \<open>
  The instance of C8 on the example storage: the user's three admin-only requests, and the
  user's update of task 1 with progress, comment, applicability and assignee.
\<close>

theorem user_role_task_operations_witness:
  "req_user (ex_request ex_user (Some 1)) = Some ex_user \<and> user_role ex_user = User
   \<and> taskUpdateSchema (ex_patch (JNumber 80) (JString ''<b>fait</b> '') (JBool True) (JString ''m1'')) \<noteq> None
   \<and> findIndexById ex_storage (req_id (ex_request ex_user (Some 1))) = Some 0
   \<and> find (\<lambda>t. task_id t = 1) (tasks (ex_storage ! 0)) = Some (ex_task 1)
   \<and> status (fst (postTask ex_now ex_now ex_storage (ex_request ex_user (Some 1)) ex_newTaskBody)) = 403
   \<and> status (fst (deleteTask ex_now ex_storage (ex_request ex_user (Some 1)))) = 403
   \<and> status (fst (putTaskName ex_now ex_now ex_storage (ex_request ex_user (Some 1)) ''Renamed'')) = 403
   \<and> putTask ex_now ex_now ex_storage (ex_request ex_user (Some 1))
        (ex_patch (JNumber 80) (JString ''<b>fait</b> '') (JBool True) (JString ''m1'')) =
       (DaoJson 200 (ex_dao\<lparr>tasks := [(ex_task 1)\<lparr>progress := Some 80,
                                          task_comment := Some ''fait'', assignedTo := Some ''m1'',
                                          lastUpdatedBy := Some ''2'', lastUpdatedAt := Some ex_now\<rparr>,
                                       ex_task 2, ex_task 3],
                             updatedAt := ex_now\<rparr>),
        [ex_dao\<lparr>tasks := [(ex_task 1)\<lparr>progress := Some 80,
                                          task_comment := Some ''fait'', assignedTo := Some ''m1'',
                                          lastUpdatedBy := Some ''2'', lastUpdatedAt := Some ex_now\<rparr>,
                                       ex_task 2, ex_task 3],
                             updatedAt := ex_now\<rparr>])"
  using user_role_task_operations [where req = "ex_request ex_user (Some 1)" and usr = ex_user
      and ?now1.0 = ex_now and ?now2.0 = ex_now and st = ex_storage and cbody = ex_newTaskBody
      and nm = "''Renamed''" and n = 1 and k = 0 and t = "ex_task 1"
      and body = "ex_patch (JNumber 80) (JString ''<b>fait</b> '') (JBool True) (JString ''m1'')"]
  by (simp add: express_defs schema_defs ex_defs sanitizeString_def trim_def isWhite_def)

section \<open>Lemmas on the schema of the Dao update\<close>

lemma zArray_Some_map:
  "zArray f xs = Some ys \<Longrightarrow> (\<And>x y. f x = Some y \<Longrightarrow> y = g x) \<Longrightarrow> ys = map g xs"
  by (induction xs arbitrary: ys) (auto split: option.splits)

lemma taskSchema_Some: "taskSchema t = Some t' \<Longrightarrow> t' = t\<lparr>task_name := trim (task_name t)\<rparr>"
  by (auto simp: taskSchema_def split: if_splits)

lemma updateDaoSchema_tasks:
  assumes "updateDaoSchema dateParses isEmail body = Some v" and "b_tasks body = Some ts"
  shows "b_tasks v = Some (map (\<lambda>t. t\<lparr>task_name := trim (task_name t)\<rparr>) ts)
       \<and> length ts \<le> 50 \<and> (\<forall>t \<in> set ts. taskSchema t \<noteq> None)"
proof -
  from assms obtain ts' where ts': "zArray taskSchema ts = Some ts'" "length ts \<le> 50"
    and v: "b_tasks v = Some ts'"
    by (auto simp: updateDaoSchema_def zOptional_def split: option.splits if_splits)
  have "ts' = map (\<lambda>t. t\<lparr>task_name := trim (task_name t)\<rparr>) ts"
    using ts'(1) taskSchema_Some by (rule zArray_Some_map)
  moreover have "\<forall>t \<in> set ts. taskSchema t \<noteq> None"
    using ts'(1) by (induction ts arbitrary: ts') (auto split: option.splits)
  ultimately show ?thesis using v ts'(2) by simp
qed

lemmas putDao_defs =
  putDao_def putDao_handler_def updateDaoSchema_def zOptional_def zTrimmed_def zString_def
  taskSchema_def teamMemberSchema_def duplicateNumber_def spreadUpdates_def sanitizedUpdates_def
  sanitizeTruthy_def orElse_def

section \<open>C10: the task list in a general Dao update\<close>

text \<open>
  C10. For an authenticated actor of role \<open>user\<close>, a PUT /api/dao/:id on an existing Dao
  whose body passes \<open>updateDaoSchema\<close>, holds a \<open>tasks\<close> array and is not rejected for a
  duplicate number is answered 200, and the stored Dao's task list is the array of the body
  (each task with its name trimmed, as the schema returns it): nothing of the previous task
  list is kept. The array is any array of at most 50 schema-valid tasks, so it may add tasks,
  leave tasks out and change names.
\<close>

theorem putDao_replaces_tasks:
  assumes u: "u = Some usr" and role: "user_role usr = User"
    and idok: "i \<noteq> []" "length i \<le> 100"
    and v: "updateDaoSchema dateParses isEmail body = Some v"
    and ts: "b_tasks body = Some ts"
    and dao: "findIndexById st i = Some k"
    and nodup: "\<not> duplicateNumber st i v"
  shows "\<exists>d. putDao dateParses isEmail now st u i body = (DaoJson 200 d, st[k := d])
           \<and> tasks d = map (\<lambda>t. t\<lparr>task_name := trim (task_name t)\<rparr>) ts"
proof -
  have auth: "requireUser u = None"
    using u role by (simp add: requireUser_def authorize_def)
  have k: "k < length st" using dao by (rule findIndexById_bound)
  let ?d = "spreadUpdates (st ! k) (sanitizedUpdates v) now"
  have run: "putDao dateParses isEmail now st u i body = (DaoJson 200 ?d, st[k := ?d])"
    using auth idok v dao nodup k
    by (simp add: putDao_def putDao_handler_def updateAtIndex_def Let_def)
  have "b_tasks v = Some (map (\<lambda>t. t\<lparr>task_name := trim (task_name t)\<rparr>) ts)"
    using updateDaoSchema_tasks [OF v ts] by simp
  then have "tasks ?d = map (\<lambda>t. t\<lparr>task_name := trim (task_name t)\<rparr>) ts"
    by (simp add: spreadUpdates_def sanitizedUpdates_def orElse_def)
  with run show ?thesis by blast
qed

text \<open>
  The instance of C10 on the example storage: the user replaces the tasks 1, 2, 3 of the Dao
  by task 1 under a new name and a new task 9.
\<close>

theorem putDao_replaces_tasks_witness:
  "user_role ex_user = User
   \<and> updateDaoSchema (\<lambda>d. True) (\<lambda>e. True) ex_tasksBody = Some ex_tasksBody
   \<and> findIndexById ex_storage ''dao1'' = Some 0
   \<and> \<not> duplicateNumber ex_storage ''dao1'' ex_tasksBody
   \<and> map task_id (tasks (ex_storage ! 0)) = [1, 2, 3]
   \<and> status (fst (putDao (\<lambda>d. True) (\<lambda>e. True) ex_now ex_storage (Some ex_user) ''dao1''
                      ex_tasksBody)) = 200
   \<and> tasks (snd (putDao (\<lambda>d. True) (\<lambda>e. True) ex_now ex_storage (Some ex_user) ''dao1''
                      ex_tasksBody) ! 0)
       = [(ex_task 1)\<lparr>task_name := ''Renamed''\<rparr>, ex_task 9]"
  using putDao_replaces_tasks [of "Some ex_user" ex_user "''dao1''" "\<lambda>d. True" "\<lambda>e. True"
      ex_tasksBody ex_tasksBody "[(ex_task 1)\<lparr>task_name := ''Renamed''\<rparr>, ex_task 9]"
      ex_storage 0 ex_now]
  by (simp add: express_defs putDao_defs schema_defs ex_defs ex_tasksBody_def trim_def isWhite_def)

section \<open>Lemmas on the reset tokens\<close>

lemma generate_Some:
  assumes "generateResetToken tok t0 s email = (Some tok', s1)"
  obtains usr where
    "find (\<lambda>u. toLowerCase (usr_email u) = toLowerCase email \<and> isActive u) (users s) = Some usr"
    "tok' = tok"
    "s1 = s\<lparr>resetTokens := (resetTokens s)
                (tok \<mapsto> \<lparr>rd_email = usr_email usr, expires = t0 + 15 * 60 * 1000\<rparr>)\<rparr>"
  using assms by (auto simp: generateResetToken_def split: option.splits)

lemma verify_no_token:
  "resetTokens s tok = None \<Longrightarrow> verifyResetToken t s tok e = (False, s)"
  by (simp add: verifyResetToken_def)

lemma reset_no_token:
  "resetTokens s tok = None \<Longrightarrow> resetPasswordWithToken h t s tok e pw = (False, s)"
  by (simp add: resetPasswordWithToken_def verify_no_token)

lemmas auth_defs =
  generateResetToken_def verifyResetToken_def resetPasswordWithToken_def
  ex_account_def ex_auth_def ex_hash_def

lemma ex_lower:
  "toLowerCase ''Marie.Dubois@2snd.fr'' = ''marie.dubois@2snd.fr''"
  "toLowerCase ''marie.dubois@2snd.fr'' = ''marie.dubois@2snd.fr''"
  by (simp_all add: toLowerCase_def lowerChar_def)

lemma ex_issued_eq:
  "ex_issued = ex_auth\<lparr>resetTokens :=
      [''A1B2C3'' \<mapsto> \<lparr>rd_email = ''marie.dubois@2snd.fr'', expires = 1000 + 15 * 60 * 1000\<rparr>]\<rparr>"
  by (simp add: ex_issued_def auth_defs ex_lower)

section \<open>C9: the password-reset token\<close>

text \<open>
  C9. Let \<open>generateResetToken\<close> issue the token \<open>tok\<close> for \<open>email\<close> at the instant \<open>t0\<close>
  (so an active user has that address), and let no other call touch the state in between.
  At every instant later than \<open>t0\<close> plus 15 minutes, \<open>verifyResetToken\<close> and
  \<open>resetPasswordWithToken\<close> with the token and the address return false. At every instant
  up to \<open>t0\<close> plus 15 minutes, both return true, and after that successful
  \<open>resetPasswordWithToken\<close> every further reset and every verification with the token
  returns false, at whatever instant and for whatever address and password.
\<close>

theorem reset_token_window_single_use:
  assumes gen: "generateResetToken tok t0 s email = (Some tok', s1)"
  shows "tok' = tok
     \<and> (\<forall>t. t0 + 15 * 60 * 1000 < t \<longrightarrow>
          fst (verifyResetToken t s1 tok email) = False
        \<and> fst (resetPasswordWithToken hash t s1 tok email pw) = False)
     \<and> (\<forall>t. t \<le> t0 + 15 * 60 * 1000 \<longrightarrow>
          fst (verifyResetToken t s1 tok email) = True
        \<and> fst (resetPasswordWithToken hash t s1 tok email pw) = True
        \<and> (\<forall>t' email' pw'.
              fst (resetPasswordWithToken hash t' (snd (resetPasswordWithToken hash t s1 tok email pw))
                     tok email' pw') = False
            \<and> fst (verifyResetToken t' (snd (resetPasswordWithToken hash t s1 tok email pw))
                     tok email') = False))"
proof -
  from gen obtain usr where
    usr: "find (\<lambda>u. toLowerCase (usr_email u) = toLowerCase email \<and> isActive u) (users s) = Some usr"
    and tok: "tok' = tok"
    and s1: "s1 = s\<lparr>resetTokens := (resetTokens s)
                (tok \<mapsto> \<lparr>rd_email = usr_email usr, expires = t0 + 15 * 60 * 1000\<rparr>)\<rparr>"
    by (rule generate_Some)
  have mail: "toLowerCase (usr_email usr) = toLowerCase email"
    using find_Some_P [OF usr] by simp
  have late_v: "verifyResetToken t s1 tok email
                  = (False, s1\<lparr>resetTokens := (resetTokens s1)(tok := None)\<rparr>)"
    if "t0 + 15 * 60 * 1000 < t" for t
    using that mail by (simp add: verifyResetToken_def s1)
  have late_r: "fst (resetPasswordWithToken hash t s1 tok email pw) = False"
    if "t0 + 15 * 60 * 1000 < t" for t
    using late_v [OF that] by (simp add: resetPasswordWithToken_def)
  have in_v: "verifyResetToken t s1 tok email = (True, s1)" if "t \<le> t0 + 15 * 60 * 1000" for t
    using that mail by (simp add: verifyResetToken_def s1)
  have users1: "users s1 = users s" by (simp add: s1)
  have in_r: "resetPasswordWithToken hash t s1 tok email pw
        = (True, s1\<lparr>userPasswords := (userPasswords s1)(usr_email usr \<mapsto> hash pw),
                     resetTokens := (resetTokens s1)(tok := None)\<rparr>)"
    if "t \<le> t0 + 15 * 60 * 1000" for t
    using in_v [OF that] usr users1 by (simp add: resetPasswordWithToken_def)
  have used: "resetTokens (snd (resetPasswordWithToken hash t s1 tok email pw)) tok = None"
    if "t \<le> t0 + 15 * 60 * 1000" for t
    using in_r [OF that] by simp
  have A: "\<forall>t. t0 + 15 * 60 * 1000 < t \<longrightarrow>
          fst (verifyResetToken t s1 tok email) = False
        \<and> fst (resetPasswordWithToken hash t s1 tok email pw) = False"
    using late_v late_r by simp
  have B: "\<forall>t. t \<le> t0 + 15 * 60 * 1000 \<longrightarrow>
          fst (verifyResetToken t s1 tok email) = True
        \<and> fst (resetPasswordWithToken hash t s1 tok email pw) = True
        \<and> (\<forall>t' email' pw'.
              fst (resetPasswordWithToken hash t' (snd (resetPasswordWithToken hash t s1 tok email pw))
                     tok email' pw') = False
            \<and> fst (verifyResetToken t' (snd (resetPasswordWithToken hash t s1 tok email pw))
                     tok email') = False)"
  proof (intro allI impI)
    fix t assume t: "t \<le> t0 + 15 * 60 * 1000"
    show "fst (verifyResetToken t s1 tok email) = True
        \<and> fst (resetPasswordWithToken hash t s1 tok email pw) = True
        \<and> (\<forall>t' email' pw'.
              fst (resetPasswordWithToken hash t' (snd (resetPasswordWithToken hash t s1 tok email pw))
                     tok email' pw') = False
            \<and> fst (verifyResetToken t' (snd (resetPasswordWithToken hash t s1 tok email pw))
                     tok email') = False)"
      using in_v [OF t] in_r [OF t] reset_no_token [OF used [OF t]] verify_no_token [OF used [OF t]]
      by simp
  qed
  from tok A B show ?thesis by blast
qed

text \<open>
  The instance of C9: the token is issued at the instant 1000 for the second seed user;
  16 minutes later it is refused, and 14 minutes after the issue it resets the password
  once and is refused the second time.
\<close>

theorem reset_token_window_single_use_witness:
  "generateResetToken ''A1B2C3'' 1000 ex_auth ''Marie.Dubois@2snd.fr'' = (Some ''A1B2C3'', ex_issued)
   \<and> fst (verifyResetToken (1000 + 16 * 60 * 1000) ex_issued ''A1B2C3'' ''Marie.Dubois@2snd.fr'') = False
   \<and> fst (resetPasswordWithToken ex_hash (1000 + 16 * 60 * 1000) ex_issued ''A1B2C3''
             ''Marie.Dubois@2snd.fr'' ''nouveau'') = False
   \<and> fst (verifyResetToken (1000 + 14 * 60 * 1000) ex_issued ''A1B2C3'' ''Marie.Dubois@2snd.fr'') = True
   \<and> fst (resetPasswordWithToken ex_hash (1000 + 14 * 60 * 1000) ex_issued ''A1B2C3''
             ''Marie.Dubois@2snd.fr'' ''nouveau'') = True
   \<and> fst (resetPasswordWithToken ex_hash (1000 + 14 * 60 * 1000)
             (snd (resetPasswordWithToken ex_hash (1000 + 14 * 60 * 1000) ex_issued ''A1B2C3''
                     ''Marie.Dubois@2snd.fr'' ''nouveau''))
             ''A1B2C3'' ''Marie.Dubois@2snd.fr'' ''encore'') = False"
proof -
  have gen: "generateResetToken ''A1B2C3'' 1000 ex_auth ''Marie.Dubois@2snd.fr''
               = (Some ''A1B2C3'', ex_issued)"
    by (simp add: ex_issued_def auth_defs ex_lower)
  have late: "(1000::int) + 15 * 60 * 1000 < 1000 + 16 * 60 * 1000"
    and early: "(1000::int) + 14 * 60 * 1000 \<le> 1000 + 15 * 60 * 1000"
    by simp_all
  from reset_token_window_single_use [OF gen, of ex_hash "''nouveau''"] late early gen
  show ?thesis
    by (simp add: ex_issued_eq auth_defs ex_lower)
qed

section \<open>Lemmas on digit strings and the next number\<close>

lemma padStart3_cases:
  "padStart3 [] = ''000''"
  "padStart3 [a] = [CHR ''0'', CHR ''0'', a]"
  "padStart3 [a, b] = [CHR ''0'', a, b]"
  "3 \<le> length s \<Longrightarrow> padStart3 s = s"
  by (simp_all add: padStart3_def numeral_3_eq_3 numeral_2_eq_2)

lemma parseInt_snoc: "parseInt (xs @ [c]) = 10 * parseInt xs + digitVal c"
  by (simp add: parseInt_def)

lemma lt10_cases:
  "(d::nat) < 10 \<Longrightarrow> d = 0 \<or> d = 1 \<or> d = 2 \<or> d = 3 \<or> d = 4 \<or> d = 5 \<or> d = 6 \<or> d = 7 \<or> d = 8 \<or> d = 9"
  by arith

lemma digitVal_digitChar: "d < 10 \<Longrightarrow> digitVal (digitChar d) = d"
  using lt10_cases [of d] by (auto simp: digitVal_def digitChar_def)

lemma isDigit_digitChar: "d < 10 \<Longrightarrow> isDigit (digitChar d)"
  using lt10_cases [of d] by (auto simp: isDigit_def digitChar_def)

lemma digitVal_less: "digitVal c < 10"
  by (simp add: digitVal_def)

lemma digitVal_inj: "isDigit a \<Longrightarrow> isDigit b \<Longrightarrow> digitVal a = digitVal b \<Longrightarrow> a = b"
  by (auto simp: isDigit_def digitVal_def)

lemma parseInt_toString: "parseInt (toString n) = n"
proof (induction n rule: toString.induct)
  case (1 n)
  show ?case
  proof (cases "n < 10")
    case True
    then show ?thesis
      by (subst toString.simps) (simp add: parseInt_def digitVal_digitChar)
  next
    case False
    with 1 have "parseInt (toString (n div 10)) = n div 10" by simp
    with False show ?thesis
      by (subst toString.simps) (simp add: parseInt_snoc digitVal_digitChar)
  qed
qed

lemma digits_toString: "list_all isDigit (toString n)"
proof (induction n rule: toString.induct)
  case (1 n)
  show ?case
  proof (cases "n < 10")
    case True
    then show ?thesis by (subst toString.simps) (simp add: isDigit_digitChar)
  next
    case False
    with 1 have "list_all isDigit (toString (n div 10))" by simp
    with False show ?thesis by (subst toString.simps) (simp add: isDigit_digitChar)
  qed
qed

lemma length_toString:
  "length (toString n) = (if n < 10 then 1 else Suc (length (toString (n div 10))))"
  by (subst toString.simps) simp

lemma length_toString_year: "1000 \<le> n \<Longrightarrow> n \<le> 9999 \<Longrightarrow> length (toString n) = 4"
proof -
  assume a: "1000 \<le> n" "n \<le> 9999"
  define m1 where "m1 = n div 10"
  define m2 where "m2 = m1 div 10"
  define m3 where "m3 = m2 div 10"
  have b: "\<not> n < 10" "\<not> m1 < 10" "\<not> m2 < 10" "m3 < 10"
    using a unfolding m1_def m2_def m3_def by arith+
  have "length (toString n) = Suc (length (toString m1))"
    using b(1) by (subst length_toString) (simp add: m1_def)
  also have "length (toString m1) = Suc (length (toString m2))"
    using b(2) by (subst length_toString) (simp add: m2_def)
  also have "length (toString m2) = Suc (length (toString m3))"
    using b(3) by (subst length_toString) (simp add: m3_def)
  also have "length (toString m3) = 1"
    using b(4) by (subst length_toString) simp
  finally show ?thesis by simp
qed

lemma parseInt_inj:
  "length xs = length ys \<Longrightarrow> list_all isDigit xs \<Longrightarrow> list_all isDigit ys
     \<Longrightarrow> parseInt xs = parseInt ys \<Longrightarrow> xs = ys"
proof (induction xs arbitrary: ys rule: rev_induct)
  case Nil
  then show ?case by simp
next
  case (snoc c xs)
  from snoc.prems(1) obtain ys' d where ys: "ys = ys' @ [d]"
    by (cases ys rule: rev_cases) auto
  from snoc.prems(4) have eq: "10 * parseInt xs + digitVal c = 10 * parseInt ys' + digitVal d"
    by (simp add: ys parseInt_snoc)
  have "digitVal c < 10" "digitVal d < 10" by (rule digitVal_less)+
  with eq have pe: "parseInt xs = parseInt ys'" and de: "digitVal c = digitVal d" by arith+
  from snoc.prems ys have "c = d" using digitVal_inj [OF _ _ de] by simp
  moreover from snoc.IH [of ys'] snoc.prems ys pe have "xs = ys'" by simp
  ultimately show ?case by (simp add: ys)
qed

lemma year_text:
  assumes "1000 \<le> year" "year \<le> 9999" "length y = 4" "list_all isDigit y"
  shows "parseInt y = year \<longleftrightarrow> y = toString year"
  using assms parseInt_inj [of y "toString year"] parseInt_toString [of year]
    digits_toString [of year] length_toString_year [of year]
  by auto

lemma length4_obtain:
  assumes "length xs = 4"
  obtains a b c d where "xs = [a, b, c, d]"
  using assms by (auto simp: length_Suc_conv numeral_eq_Suc)

lemma length12_obtain:
  assumes "length xs = 12"
  obtains c0 c1 c2 c3 c4 c5 c6 c7 c8 c9 c10 c11
  where "xs = [c0, c1, c2, c3, c4, c5, c6, c7, c8, c9, c10, c11]"
proof -
  from assms have "length xs = Suc (Suc (Suc (Suc (Suc (Suc (Suc (Suc (Suc (Suc (Suc (Suc 0)))))))))))"
    by simp
  then show ?thesis using that by (auto simp: length_Suc_conv)
qed

lemma match_year_seq:
  assumes yr: "1000 \<le> year" "year \<le> 9999"
  shows "(case matchYearSeq n of
            None \<Rightarrow> None
          | Some (y, q) \<Rightarrow> if parseInt y = year then Some (parseInt q) else None)
         = seqOfYear year n"
proof -
  have len: "length (toString year) = 4" using yr by (rule length_toString_year)
  then obtain y0 y1 y2 y3 where ty: "toString year = [y0, y1, y2, y3]"
    by (rule length4_obtain)
  have dy: "list_all isDigit [y0, y1, y2, y3]" using digits_toString [of year] by (simp add: ty)
  have py: "parseInt [y0, y1, y2, y3] = year" using parseInt_toString [of year] by (simp add: ty)
  show ?thesis
  proof (cases "length n = 12")
    case False
    then show ?thesis by (simp add: matchYearSeq_def seqOfYear_def ty)
  next
    case True
    then obtain c0 c1 c2 c3 c4 c5 c6 c7 c8 c9 c10 c11
      where n: "n = [c0, c1, c2, c3, c4, c5, c6, c7, c8, c9, c10, c11]"
      by (rule length12_obtain)
    have key: "list_all isDigit [c4, c5, c6, c7] \<and> parseInt [c4, c5, c6, c7] = year
                 \<longleftrightarrow> [c4, c5, c6, c7] = [y0, y1, y2, y3]"
      using year_text [OF yr, of "[c4, c5, c6, c7]"] dy py by (auto simp: ty)
    show ?thesis
    proof (cases "[c4, c5, c6, c7] = [y0, y1, y2, y3]")
      case True
      with dy py show ?thesis
        by (simp add: n matchYearSeq_def seqOfYear_def ty)
    next
      case False
      with key have "\<not> (list_all isDigit [c4, c5, c6, c7] \<and> parseInt [c4, c5, c6, c7] = year)"
        by simp
      with False show ?thesis
        by (auto simp: n matchYearSeq_def seqOfYear_def ty)
    qed
  qed
qed

lemma currentYear_numbers:
  assumes yr: "1000 \<le> year" "year \<le> 9999"
  shows "map (\<lambda>dao. case matchYearSeq (numeroListe dao) of None \<Rightarrow> 0 | Some (y, q) \<Rightarrow> parseInt q)
           (filter (\<lambda>dao. case matchYearSeq (numeroListe dao) of
                            None \<Rightarrow> False | Some (y, q) \<Rightarrow> parseInt y = year) st)
         = List.map_filter (seqOfYear year) (map numeroListe st)"
proof (induction st)
  case Nil
  show ?case by (simp add: List.map_filter_simps)
next
  case (Cons d st)
  show ?case
    using Cons.IH match_year_seq [OF yr, of "numeroListe d"]
    by (auto simp: List.map_filter_simps split: option.splits if_splits)
qed

lemma positive_max:
  fixes xs :: "nat list"
  assumes "xs \<noteq> []"
  shows "(if length (filter (\<lambda>num. num > 0) xs) > 0
          then mathMax (filter (\<lambda>num. num > 0) xs) + 1 else 1) = Max (set xs) + 1"
proof (cases "filter (\<lambda>num. num > 0) xs = []")
  case True
  then have "\<forall>x \<in> set xs. x = 0" by (auto simp: filter_empty_conv)
  with assms have "Max (set xs) = 0" by (cases xs) (auto intro: Max_eqI)
  with True show ?thesis by simp
next
  case False
  let ?ys = "filter (\<lambda>num. num > 0) xs"
  from False obtain y where y: "y \<in> set ?ys" by (cases ?ys) auto
  have "Max (set xs) = Max (set ?ys)"
  proof (rule Max_eqI)
    show "finite (set xs)" by simp
  next
    fix x assume "x \<in> set xs"
    then show "x \<le> Max (set ?ys)"
      using False by (cases "x > 0") (auto intro: Max_ge)
  next
    have "set ?ys \<noteq> {}" using y by auto
    then have "Max (set ?ys) \<in> set ?ys" by (intro Max_in) simp_all
    then show "Max (set ?ys) \<in> set xs" by simp
  qed
  with False show ?thesis by (simp add: mathMax_Max)
qed

lemma nextNumber_handler_refines:
  assumes "2020 \<le> year" "year \<le> 2100"
  shows "nextNumber_handler year st =
     (case nextDaoNumber (map numeroListe st) year of
        Inl YearLimitExceeded \<Rightarrow> Error 400 ''Too many DAOs for this year'' ''YEAR_LIMIT_EXCEEDED''
      | Inr s \<Rightarrow> NextNumberJson s)"
proof -
  have yr: "1000 \<le> year" "year \<le> 9999" using assms by simp_all
  let ?cur = "filter (\<lambda>dao. case matchYearSeq (numeroListe dao) of
                            None \<Rightarrow> False | Some (y, q) \<Rightarrow> parseInt y = year) st"
  let ?seqs = "List.map_filter (seqOfYear year) (map numeroListe st)"
  have seqs: "map (\<lambda>dao. case matchYearSeq (numeroListe dao) of None \<Rightarrow> 0 | Some (y, q) \<Rightarrow> parseInt q) ?cur
                = ?seqs"
    using yr by (rule currentYear_numbers)
  then have empty: "?cur = [] \<longleftrightarrow> ?seqs = []"
    by (metis map_is_Nil_conv)
  show ?thesis
  proof (cases "?seqs = []")
    case True
    with empty have "?cur = []" by simp
    with True assms show ?thesis
      by (simp add: nextNumber_handler_def nextDaoNumber_def)
  next
    case False
    with empty have ne: "?cur \<noteq> []" by simp
    from positive_max [OF False] False ne assms seqs show ?thesis
      by (simp add: nextNumber_handler_def nextDaoNumber_def Let_def)
  qed
qed

lemmas digit_defs =
  matchYearSeq_def matchSeqAt_def isDigit_def parseInt_def digitVal_def digitChar_def
  toString.simps padStart3_cases

section \<open>C3: the next Dao number\<close>

text \<open>
  C3. The route GET /api/dao/next-number of dao-simple.ts agrees with the contract
  (\<open>nextNumber_handler_refines\<close>: for the years 2020 to 2100 it considers exactly the serials
  that match \<^verbatim>\<open>^DAO-<year>-(\d{3})$\<close>, answers \<open>001\<close> when there is none and the maximum
  plus one otherwise, and fails with \<open>YEAR_LIMIT_EXCEEDED\<close> when that exceeds 999). The other
  two implementations have no such check: with \<open>DAO-2025-999\<close> in the collection,
  \<open>DaoService.generateNextDaoNumber\<close> and the MongoDB route return \<open>DAO-2025-1000\<close>, a
  serial of four digits, where the contract fails; and once \<open>DAO-2025-1000\<close> is in the
  collection, \<open>generateNextDaoNumber\<close> reads it as the sequence number 100 and returns
  \<open>DAO-2025-1000\<close> again.
\<close>

theorem generateNextDaoNumber_past_999:
  "nextDaoNumber [''DAO-2025-999''] 2025 = Inl YearLimitExceeded
   \<and> nextNumber_handler 2025 [ex_dao\<lparr>numeroListe := ''DAO-2025-999''\<rparr>]
       = Error 400 ''Too many DAOs for this year'' ''YEAR_LIMIT_EXCEEDED''
   \<and> generateNextDaoNumber 2025 [''DAO-2025-999''] = ''DAO-2025-1000''
   \<and> mongoNextNumber 2025 [''DAO-2025-999''] = ''DAO-2025-1000''
   \<and> generateNextDaoNumber 2025 [''DAO-2025-999'', ''DAO-2025-1000''] = ''DAO-2025-1000''"
proof -
  have y: "toString 2025 = ''2025''"
    by (simp add: toString.simps digitChar_def)
  have 1: "nextDaoNumber [''DAO-2025-999''] 2025 = Inl YearLimitExceeded"
    by (simp add: nextDaoNumber_def seqOfYear_def List.map_filter_simps y isDigit_def
        parseInt_def digitVal_def)
  have 2: "nextNumber_handler 2025 [ex_dao\<lparr>numeroListe := ''DAO-2025-999''\<rparr>]
       = Error 400 ''Too many DAOs for this year'' ''YEAR_LIMIT_EXCEEDED''"
    by (simp add: nextNumber_handler_def y digit_defs Let_def ex_dao_def)
  have 3: "generateNextDaoNumber 2025 [''DAO-2025-999''] = ''DAO-2025-1000''"
    by (simp add: generateNextDaoNumber_def y digit_defs Let_def)
  have 4: "mongoNextNumber 2025 [''DAO-2025-999''] = ''DAO-2025-1000''"
    by (simp add: mongoNextNumber_def y digit_defs Let_def)
  have 5: "generateNextDaoNumber 2025 [''DAO-2025-999'', ''DAO-2025-1000''] = ''DAO-2025-1000''"
    by (simp add: generateNextDaoNumber_def y digit_defs Let_def)
  from 1 2 3 4 5 show ?thesis by simp
qed

text \<open>
  The examples of the specification on the route: no serial gives \<open>DAO-2025-001\<close>; the
  serials 007 and 003 of 2025 give \<open>DAO-2025-008\<close>, whatever serials of 2024 there are.
\<close>

lemma nextNumber_examples:
  "nextNumber_handler 2025 [] = NextNumberJson ''DAO-2025-001''"
  "nextNumber_handler 2025
     [ex_dao\<lparr>numeroListe := ''DAO-2025-007''\<rparr>, ex_dao\<lparr>numeroListe := ''DAO-2025-003''\<rparr>,
      ex_dao\<lparr>numeroListe := ''DAO-2024-103''\<rparr>] = NextNumberJson ''DAO-2025-008''"
  by (simp_all add: nextNumber_handler_def digit_defs Let_def ex_dao_def)

section \<open>C1: the status of a Dao\<close>

lemma formatDate_daysDiff_days:
  assumes "0 \<le> f" "f < 1000 * 60 * 60 * 24"
  shows "formatDate_daysDiff (depot * (1000 * 60 * 60 * 24)) (today * (1000 * 60 * 60 * 24) + f)
           = depot - today"
proof -
  have "(today * 86400000 + f - depot * 86400000) = f + (today - depot) * 86400000"
    by (simp add: algebra_simps)
  moreover have "(f + (today - depot) * 86400000) div 86400000 = today - depot"
    using assms by simp
  ultimately show ?thesis by (simp add: formatDate_daysDiff_def)
qed

text \<open>
  C1. \<open>calculateDaoStatus\<close> follows the cascade: a progress of 100 gives \<open>completed\<close>
  whatever the dates are; otherwise, with \<open>daysDiff\<close> the difference in days of the deposit
  date and today, a negative \<open>daysDiff\<close> gives \<open>urgent\<close>, 5 or more \<open>safe\<close>, 3 or less
  \<open>urgent\<close> and 4 \<open>default\<close>; at the boundaries, 5 gives \<open>safe\<close>, 4 \<open>default\<close> and 3
  \<open>urgent\<close>. The colour that \<open>getProgressColor\<close> of the Dao page computes is the colour of
  that status, on the difference of the days and also on \<open>formatDate\<close>'s \<open>daysDiff\<close> of the
  deposit date's midnight and any instant \<open>f\<close> milliseconds into today.
\<close>

theorem calculateDaoStatus_cascade:
  "calculateDaoStatus today depot 100 = Completed
   \<and> (p \<noteq> 100 \<and> depot - today < 0 \<longrightarrow> calculateDaoStatus today depot p = Urgent)
   \<and> (p \<noteq> 100 \<and> depot - today \<ge> 5 \<longrightarrow> calculateDaoStatus today depot p = Safe)
   \<and> (p \<noteq> 100 \<and> depot - today \<le> 3 \<longrightarrow> calculateDaoStatus today depot p = Urgent)
   \<and> (p \<noteq> 100 \<and> depot - today = 4 \<longrightarrow> calculateDaoStatus today depot p = Default)
   \<and> (p \<noteq> 100 \<longrightarrow> calculateDaoStatus today (today + 5) p = Safe
                    \<and> calculateDaoStatus today (today + 4) p = Default
                    \<and> calculateDaoStatus today (today + 3) p = Urgent)
   \<and> getProgressColor (depot - today) p = statusColor (calculateDaoStatus today depot p)
   \<and> (0 \<le> f \<and> f < 1000 * 60 * 60 * 24 \<longrightarrow>
        getProgressColor (formatDate_daysDiff (depot * (1000 * 60 * 60 * 24))
                            (today * (1000 * 60 * 60 * 24) + f)) p
        = statusColor (calculateDaoStatus today depot p))"
proof -
  have col: "getProgressColor (depot - today) p
               = statusColor (calculateDaoStatus today depot p)"
    by (simp add: getProgressColor_def calculateDaoStatus_def Let_def)
  have "0 \<le> f \<and> f < 1000 * 60 * 60 * 24 \<longrightarrow>
        getProgressColor (formatDate_daysDiff (depot * (1000 * 60 * 60 * 24))
                            (today * (1000 * 60 * 60 * 24) + f)) p
        = statusColor (calculateDaoStatus today depot p)"
    using formatDate_daysDiff_days [of f depot today] col by simp
  with col show ?thesis
    by (simp add: calculateDaoStatus_def Let_def)
qed

text \<open>
  The instance of C1 for today the day 20000: a completed Dao whose date has passed, a
  date one day ago, and the dates 5, 4 and 3 days ahead at 60 percent; the page, ten hours
  into today, shows the date 4 days ahead in blue.
\<close>

theorem calculateDaoStatus_cascade_witness:
  "calculateDaoStatus 20000 19990 100 = Completed
   \<and> calculateDaoStatus 20000 19999 60 = Urgent
   \<and> calculateDaoStatus 20000 20005 60 = Safe
   \<and> calculateDaoStatus 20000 20004 60 = Default
   \<and> calculateDaoStatus 20000 20003 60 = Urgent
   \<and> getProgressColor (formatDate_daysDiff (20004 * (1000 * 60 * 60 * 24))
                         (20000 * (1000 * 60 * 60 * 24) + 36000000)) 60 = ''bg-blue-500''"
  using calculateDaoStatus_cascade [of 20000 19990 60 36000000]
    calculateDaoStatus_cascade [of 20000 19999 60 36000000]
    calculateDaoStatus_cascade [of 20000 20005 60 36000000]
    calculateDaoStatus_cascade [of 20000 20004 60 36000000]
    calculateDaoStatus_cascade [of 20000 20003 60 36000000]
  by simp

section \<open>C2: the progress of a Dao\<close>

lemma round_average:
  assumes "0 < n"
  shows "round (of_int s / of_int n :: rat) = (2 * s + n) div (2 * n)"
proof -
  have "(of_int s / of_int n :: rat) + 1 / 2 = of_int (2 * s + n) / of_int (2 * n)"
    using assms by (simp add: field_simps)
  then have "round (of_int s / of_int n :: rat) = \<lfloor>of_int (2 * s + n) / of_int (2 * n) :: rat\<rfloor>"
    by (simp add: round_def)
  also have "\<dots> = (2 * s + n) div (2 * n)"
    by (rule floor_divide_of_int_eq)
  finally show ?thesis .
qed

lemma calculateDaoProgress_mset:
  "calculateDaoProgress ts =
     (let m = filter_mset isApplicable (mset ts)
      in if m = {#} then 0
         else max 0 (min 100
                (round (of_int (sum_mset (image_mset progressValue m)) / of_int (int (size m)) :: rat))))"
proof -
  have s: "sum_list (map progressValue (filter isApplicable ts))
             = sum_mset (image_mset progressValue (filter_mset isApplicable (mset ts)))"
    by (metis mset_filter mset_map sum_mset_sum_list)
  have l: "length (filter isApplicable ts) = size (filter_mset isApplicable (mset ts))"
    by (metis mset_filter size_mset)
  have e: "filter isApplicable ts = [] \<longleftrightarrow> filter_mset isApplicable (mset ts) = {#}"
    by (metis mset_filter mset_zero_iff)
  show ?thesis
    unfolding calculateDaoProgress_def Let_def s l e ..
qed

lemma filter_applicable_edit:
  "list_all2 (\<lambda>t t'. if isApplicable t then t' = t else \<not> isApplicable t') ts ts'
     \<Longrightarrow> filter isApplicable ts' = filter isApplicable ts"
  by (induction rule: list_all2_induct) (auto split: if_splits)

text \<open>
  C2. When a task list has an applicable task, \<open>calculateDaoProgress\<close> is the average of
  the progress values of exactly its applicable tasks (null counting as 0), rounded to the
  nearest integer (a half upwards: the integer quotient of twice the sum plus the count by
  twice the count) and clamped to 0..100. The result always lies in 0..100. It is the same
  for every list with the same tasks in another order, and for every list that differs only
  in tasks that are not applicable and stay so, whatever their other fields become.
\<close>

theorem calculateDaoProgress_rounded_average:
  "(filter isApplicable ts \<noteq> [] \<longrightarrow>
      calculateDaoProgress ts =
        max 0 (min 100 (round (of_int (sum_list (map progressValue (filter isApplicable ts)))
                               / of_int (int (length (filter isApplicable ts))) :: rat)))
    \<and> calculateDaoProgress ts =
        max 0 (min 100 ((2 * sum_list (map progressValue (filter isApplicable ts))
                           + int (length (filter isApplicable ts)))
                        div (2 * int (length (filter isApplicable ts))))))
   \<and> 0 \<le> calculateDaoProgress ts \<and> calculateDaoProgress ts \<le> 100
   \<and> (mset ts' = mset ts \<longrightarrow> calculateDaoProgress ts' = calculateDaoProgress ts)
   \<and> (list_all2 (\<lambda>t t'. if isApplicable t then t' = t else \<not> isApplicable t') ts ts''
        \<longrightarrow> calculateDaoProgress ts'' = calculateDaoProgress ts)"
proof -
  let ?app = "filter isApplicable ts"
  have unf: "calculateDaoProgress ts =
      (if ?app = [] then 0
       else max 0 (min 100 (round (of_int (sum_list (map progressValue ?app))
                               / of_int (int (length ?app)) :: rat))))"
    unfolding calculateDaoProgress_def Let_def ..
  have 1: "?app \<noteq> [] \<longrightarrow>
      calculateDaoProgress ts =
        max 0 (min 100 (round (of_int (sum_list (map progressValue ?app))
                               / of_int (int (length ?app)) :: rat)))"
  proof
    assume "?app \<noteq> []"
    then show "calculateDaoProgress ts =
        max 0 (min 100 (round (of_int (sum_list (map progressValue ?app))
                               / of_int (int (length ?app)) :: rat)))"
      by (simp only: unf if_False)
  qed
  have 2: "?app \<noteq> [] \<longrightarrow>
      calculateDaoProgress ts =
        max 0 (min 100 ((2 * sum_list (map progressValue ?app) + int (length ?app))
                        div (2 * int (length ?app))))"
  proof
    assume ne: "?app \<noteq> []"
    then have "0 < int (length ?app)" by simp
    from round_average [OF this, of "sum_list (map progressValue ?app)"] ne
    show "calculateDaoProgress ts =
        max 0 (min 100 ((2 * sum_list (map progressValue ?app) + int (length ?app))
                        div (2 * int (length ?app))))"
      by (simp only: unf if_False)
  qed
  have 3: "0 \<le> calculateDaoProgress ts \<and> calculateDaoProgress ts \<le> 100"
    by (simp add: calculateDaoProgress_def Let_def)
  have 4: "mset ts' = mset ts \<longrightarrow> calculateDaoProgress ts' = calculateDaoProgress ts"
    by (simp add: calculateDaoProgress_mset)
  have 5: "list_all2 (\<lambda>t t'. if isApplicable t then t' = t else \<not> isApplicable t') ts ts''
        \<longrightarrow> calculateDaoProgress ts'' = calculateDaoProgress ts"
    using filter_applicable_edit [of ts ts''] by (simp add: calculateDaoProgress_def)
  from 1 2 3 4 5 show ?thesis by blast
qed

text \<open>
  The instance of C2: three applicable tasks at 50, 75 and null and one task that is not
  applicable give 42 (125 / 3 rounded), in this order, in the reverse order, and after the
  task that is not applicable got another name, progress and assignee.
\<close>

theorem calculateDaoProgress_rounded_average_witness:
  "filter isApplicable ex_progressTasks \<noteq> []
   \<and> mset ex_progressTasks_reordered = mset ex_progressTasks
   \<and> list_all2 (\<lambda>t t'. if isApplicable t then t' = t else \<not> isApplicable t')
        ex_progressTasks ex_progressTasks_edited
   \<and> calculateDaoProgress ex_progressTasks = 42
   \<and> calculateDaoProgress ex_progressTasks_reordered = 42
   \<and> calculateDaoProgress ex_progressTasks_edited = 42"
proof -
  have a: "filter isApplicable ex_progressTasks \<noteq> []"
    by (simp add: ex_progressTasks_def ex_task_def)
  have b: "mset ex_progressTasks_reordered = mset ex_progressTasks"
    by (simp add: ex_progressTasks_def ex_progressTasks_reordered_def add.commute add.left_commute)
  have c: "list_all2 (\<lambda>t t'. if isApplicable t then t' = t else \<not> isApplicable t')
        ex_progressTasks ex_progressTasks_edited"
    by (simp add: ex_progressTasks_def ex_progressTasks_edited_def ex_task_def)
  have d: "max 0 (min 100 ((2 * sum_list (map progressValue (filter isApplicable ex_progressTasks))
                           + int (length (filter isApplicable ex_progressTasks)))
                        div (2 * int (length (filter isApplicable ex_progressTasks))))) = 42"
    by (simp add: ex_progressTasks_def ex_task_def progressValue_def)
  from calculateDaoProgress_rounded_average
         [of ex_progressTasks ex_progressTasks_reordered ex_progressTasks_edited] a b c d
  show ?thesis by simp
qed

end
